theory Spec2Isabelle
  imports Complex_Main
begin

section \<open>Python values shared by the parsers\<close>

text \<open>
  A Python \<open>bytes\<close> object is a list of 8-bit characters. A \<open>str\<close> is modelled by the same
  type, a character standing for its code point: the model covers text whose code points are
  below 256.
\<close>

type_synonym bytes = string

text \<open>The exceptions the parsers can raise.\<close>

datatype error =
    ValueError | IndexError | AttributeError | TypeError | KeyError | OverflowError
  | UnicodeDecodeError
  | NotLatin1 \<comment> \<open>not an exception: text with a code point above 255, outside this model\<close>

text \<open>
  What \<open>LOGGER\<close> receives: an \<open>info\<close> message, or the exception handed to
  \<open>LOGGER.warning\<close>.
\<close>

datatype log_record = Info string | Warning error

text \<open>
  The Python values the parsers store: \<open>None\<close>, booleans, integers, floats, \<open>str\<close>,
  \<open>bytes\<close>, lists and dictionaries with \<open>str\<close> keys (in insertion order), and the table
  of bound methods \<open>ThreadInfo.parse\<close> attaches. A float is kept as the literal it was read
  from; the parsers never compute with one.
\<close>

datatype pyval =
    PNone
  | PBool bool
  | PInt int
  | PFloat string
  | PStr string
  | PBytes bytes
  | PList "pyval list"
  | PDict "(string \<times> pyval) list"
  | PMethods

section \<open>Operations on \<open>bytes\<close>\<close>

text \<open>ASCII whitespace, as \<open>bytes.strip\<close>, \<open>bytes.split\<close> and a bytes pattern's \<open>\s\<close> read it.\<close>

definition is_space :: "char \<Rightarrow> bool" where
  "is_space c = (let n = (of_char c :: nat) in n = 32 \<or> (9 \<le> n \<and> n \<le> 13))"

definition is_digit :: "char \<Rightarrow> bool" where
  "is_digit c = (let n = (of_char c :: nat) in 48 \<le> n \<and> n \<le> 57)"

definition is_word :: "char \<Rightarrow> bool" where
  "is_word c = (let n = (of_char c :: nat) in
     (48 \<le> n \<and> n \<le> 57) \<or> (65 \<le> n \<and> n \<le> 90) \<or> (97 \<le> n \<and> n \<le> 122) \<or> n = 95)"

text \<open>
  The same classes for a \<open>str\<close>, on the code points below 256: \<open>str.isspace\<close> (also a str
  pattern's \<open>\s\<close>) and a str pattern's \<open>\w\<close>.
\<close>

definition is_uspace :: "char \<Rightarrow> bool" where
  "is_uspace c = (let n = (of_char c :: nat) in
     n = 32 \<or> (9 \<le> n \<and> n \<le> 13) \<or> (28 \<le> n \<and> n \<le> 31) \<or> n = 133 \<or> n = 160)"

definition is_uword :: "char \<Rightarrow> bool" where
  "is_uword c = (let n = (of_char c :: nat) in
     (48 \<le> n \<and> n \<le> 57) \<or> (65 \<le> n \<and> n \<le> 90) \<or> (97 \<le> n \<and> n \<le> 122) \<or> n = 95 \<or>
     n = 170 \<or> n = 178 \<or> n = 179 \<or> n = 181 \<or> n = 185 \<or> n = 186 \<or>
     (188 \<le> n \<and> n \<le> 190) \<or> (192 \<le> n \<and> n \<le> 214) \<or> (216 \<le> n \<and> n \<le> 246) \<or>
     (248 \<le> n \<and> n \<le> 255))"

definition lstrip :: "bytes \<Rightarrow> bytes" where
  "lstrip s = dropWhile is_space s"

definition strip :: "bytes \<Rightarrow> bytes" where
  "strip s = rev (dropWhile is_space (rev (dropWhile is_space s)))"

text \<open>\<open>s.strip(chars)\<close>\<close>

text \<open>\<open>s.strip()\<close> on a \<open>str\<close>\<close>

definition ustrip :: "string \<Rightarrow> string" where
  "ustrip s = rev (dropWhile is_uspace (rev (dropWhile is_uspace s)))"


definition startswith :: "bytes \<Rightarrow> bytes \<Rightarrow> bool" where
  "startswith s p = (take (length p) s = p)"

text \<open>\<open>sub in s\<close>\<close>

fun contains :: "bytes \<Rightarrow> bytes \<Rightarrow> bool" where
  "contains [] sub = (sub = [])"
| "contains (c # cs) sub = (startswith (c # cs) sub \<or> contains cs sub)"

text \<open>
  \<open>s.split(sep)\<close> for a non-empty separator: the pieces between the occurrences of
  \<open>sep\<close>, found from the left; always at least one piece.
\<close>

function split_sep :: "bytes \<Rightarrow> bytes \<Rightarrow> bytes list" where
  "split_sep sep [] = [[]]"
| "split_sep sep (c # cs) =
     (if sep \<noteq> [] \<and> startswith (c # cs) sep
      then [] # split_sep sep (drop (length sep) (c # cs))
      else (case split_sep sep cs of
              w # ws \<Rightarrow> (c # w) # ws
            | [] \<Rightarrow> [[c]]))"
  by pat_completeness auto
termination
  by (relation "measure (\<lambda>(sep, s). length s)") auto

text \<open>\<open>s.split(sep, 1)\<close>: cut at the first occurrence only.\<close>

fun split1 :: "bytes \<Rightarrow> bytes \<Rightarrow> bytes list" where
  "split1 sep [] = [[]]"
| "split1 sep (c # cs) =
     (if sep \<noteq> [] \<and> startswith (c # cs) sep
      then [[], drop (length sep) (c # cs)]
      else (case split1 sep cs of
              w # ws \<Rightarrow> (c # w) # ws
            | [] \<Rightarrow> [[c]]))"


text \<open>\<open>s.replace(old, new)\<close> for a non-empty \<open>old\<close>.\<close>

function replace :: "bytes \<Rightarrow> bytes \<Rightarrow> bytes \<Rightarrow> bytes" where
  "replace old new [] = []"
| "replace old new (c # cs) =
     (if old \<noteq> [] \<and> startswith (c # cs) old
      then new @ replace old new (drop (length old) (c # cs))
      else c # replace old new cs)"
  by pat_completeness auto
termination
  by (relation "measure (\<lambda>(old, new, s). length s)") auto

fun join :: "bytes \<Rightarrow> bytes list \<Rightarrow> bytes" where
  "join sep [] = []"
| "join sep [x] = x"
| "join sep (x # y # ys) = x @ sep @ join sep (y # ys)"


text \<open>
  \<open>int(b)\<close> on bytes: surrounding whitespace and one sign are allowed, the digits may be
  grouped by single underscores, and more than 4300 digits (the interpreter's default limit)
  are refused. Anything else is a \<open>ValueError\<close>.
\<close>

fun digits_ok :: "bytes \<Rightarrow> bool" where
  "digits_ok [] = False"
| "digits_ok [c] = is_digit c"
| "digits_ok (c # d # ds) =
     (is_digit c \<and> (if d = CHR ''_'' then ds \<noteq> [] \<and> digits_ok ds else digits_ok (d # ds)))"

definition digits_value :: "bytes \<Rightarrow> int" where
  "digits_value ds = foldl (\<lambda>acc c. acc * 10 + (int (of_char c) - 48)) 0 (filter is_digit ds)"

definition py_int :: "bytes \<Rightarrow> error + int" where
  "py_int b =
     (let s = strip b;
          neg = (s \<noteq> [] \<and> hd s = CHR ''-'');
          ds = (if s \<noteq> [] \<and> (hd s = CHR ''-'' \<or> hd s = CHR ''+'') then tl s else s)
      in if \<not> digits_ok ds then Inl ValueError
         else if length (filter is_digit ds) > 4300 then Inl ValueError
         else Inr (if neg then - digits_value ds else digits_value ds))"

section \<open>Regular expressions, as the \<open>re\<close> module matches them\<close>

text \<open>
  A pattern is written as its syntax tree. The matcher is the backtracking one of \<open>re\<close>:
  alternatives and quantifiers are tried in priority order (greedy: longest first, lazy:
  shortest first) and the first way that lets the rest of the pattern match wins. Every
  quantifier of the patterns in this repository, the optional groups apart, ranges over a
  single character class. \<open>CSpace\<close>, \<open>CWord\<close> and \<open>CDigit\<close> are \<open>\s\<close>, \<open>\w\<close> and
  \<open>\d\<close> of a bytes pattern; in a str pattern \<open>\s\<close> and \<open>\w\<close> are \<open>USpace\<close> and
  \<open>UWord\<close>, and \<open>\d\<close> is \<open>CDigit\<close> on the code points below 256. A pattern compiled with \<open>re.DOTALL\<close> uses \<open>DotAll\<close> for
  \<open>.\<close>, one compiled with \<open>re.MULTILINE\<close> uses \<open>BolM\<close> and \<open>EolM\<close> for \<open>^\<close> and
  \<open>$\<close>.
\<close>

datatype cset = Ch char | Rng char char | CSpace | CNonSpace | CWord | CDigit | USpace | UWord

fun in_cset :: "cset \<Rightarrow> char \<Rightarrow> bool" where
  "in_cset (Ch d) c = (c = d)"
| "in_cset (Rng lo hi) c = ((of_char lo :: nat) \<le> of_char c \<and> (of_char c :: nat) \<le> of_char hi)"
| "in_cset CSpace c = is_space c"
| "in_cset CNonSpace c = (\<not> is_space c)"
| "in_cset CWord c = is_word c"
| "in_cset CDigit c = is_digit c"
| "in_cset USpace c = is_uspace c"
| "in_cset UWord c = is_uword c"

datatype atom = AnyOf "cset list" | NoneOf "cset list" | Dot | DotAll

fun accepts :: "atom \<Rightarrow> char \<Rightarrow> bool" where
  "accepts (AnyOf cs) c = (\<exists>s \<in> set cs. in_cset s c)"
| "accepts (NoneOf cs) c = (\<not> (\<exists>s \<in> set cs. in_cset s c))"
| "accepts Dot c = (c \<noteq> CHR ''\<newline>'')"
| "accepts DotAll c = True"

datatype re =
    Lit string
  | One atom
  | Star atom
  | Plus atom
  | LStar atom
  | LPlus atom
  | Times nat atom
  | Opt re
  | Seq "re list"
  | Alt re re
  | Grp nat re
  | Bol
  | BolM
  | Eol
  | EolM
  | EndZ
  | Ahead re

text \<open>
  The matcher runs over the text that is left, and carries the position, the character
  before it (for \<open>^\<close>) and the spans of the groups closed so far, the latest first. The continuation is the
  rest of the pattern.
\<close>

type_synonym groups = "(nat \<times> (nat \<times> nat)) list"
type_synonym cont = "nat \<Rightarrow> char option \<Rightarrow> string \<Rightarrow> groups \<Rightarrow> (nat \<times> groups) option"

fun lit :: "string \<Rightarrow> nat \<Rightarrow> char option \<Rightarrow> string \<Rightarrow> groups \<Rightarrow> cont \<Rightarrow> (nat \<times> groups) option" where
  "lit [] pos prev rest g k = k pos prev rest g"
| "lit (d # ds) pos prev [] g k = None"
| "lit (d # ds) pos prev (c # cs) g k = (if c = d then lit ds (Suc pos) (Some c) cs g k else None)"

fun atom1 :: "atom \<Rightarrow> nat \<Rightarrow> char option \<Rightarrow> string \<Rightarrow> groups \<Rightarrow> cont \<Rightarrow> (nat \<times> groups) option" where
  "atom1 a pos prev [] g k = None"
| "atom1 a pos prev (c # cs) g k = (if accepts a c then k (Suc pos) (Some c) cs g else None)"

fun star :: "atom \<Rightarrow> nat \<Rightarrow> char option \<Rightarrow> string \<Rightarrow> groups \<Rightarrow> cont \<Rightarrow> (nat \<times> groups) option" where
  "star a pos prev [] g k = k pos prev [] g"
| "star a pos prev (c # cs) g k =
     (if accepts a c
      then (case star a (Suc pos) (Some c) cs g k of
              Some r \<Rightarrow> Some r
            | None \<Rightarrow> k pos prev (c # cs) g)
      else k pos prev (c # cs) g)"

fun lstar :: "atom \<Rightarrow> nat \<Rightarrow> char option \<Rightarrow> string \<Rightarrow> groups \<Rightarrow> cont \<Rightarrow> (nat \<times> groups) option" where
  "lstar a pos prev [] g k = k pos prev [] g"
| "lstar a pos prev (c # cs) g k =
     (case k pos prev (c # cs) g of
        Some r \<Rightarrow> Some r
      | None \<Rightarrow> (if accepts a c then lstar a (Suc pos) (Some c) cs g k else None))"

fun rep_n :: "nat \<Rightarrow> atom \<Rightarrow> nat \<Rightarrow> char option \<Rightarrow> string \<Rightarrow> groups \<Rightarrow> cont \<Rightarrow> (nat \<times> groups) option" where
  "rep_n 0 a pos prev rest g k = k pos prev rest g"
| "rep_n (Suc n) a pos prev rest g k =
     atom1 a pos prev rest g (\<lambda>pos' prev' rest' g'. rep_n n a pos' prev' rest' g' k)"

fun rmatch :: "re \<Rightarrow> nat \<Rightarrow> char option \<Rightarrow> string \<Rightarrow> groups \<Rightarrow> cont \<Rightarrow> (nat \<times> groups) option"
and rmatch_seq :: "re list \<Rightarrow> nat \<Rightarrow> char option \<Rightarrow> string \<Rightarrow> groups \<Rightarrow> cont \<Rightarrow> (nat \<times> groups) option" where
  "rmatch (Lit s) pos prev rest g k = lit s pos prev rest g k"
| "rmatch (One a) pos prev rest g k = atom1 a pos prev rest g k"
| "rmatch (Star a) pos prev rest g k = star a pos prev rest g k"
| "rmatch (Plus a) pos prev rest g k =
     atom1 a pos prev rest g (\<lambda>pos' prev' rest' g'. star a pos' prev' rest' g' k)"
| "rmatch (LStar a) pos prev rest g k = lstar a pos prev rest g k"
| "rmatch (LPlus a) pos prev rest g k =
     atom1 a pos prev rest g (\<lambda>pos' prev' rest' g'. lstar a pos' prev' rest' g' k)"
| "rmatch (Times n a) pos prev rest g k = rep_n n a pos prev rest g k"
| "rmatch (Opt r) pos prev rest g k =
     (case rmatch r pos prev rest g k of Some x \<Rightarrow> Some x | None \<Rightarrow> k pos prev rest g)"
| "rmatch (Seq rs) pos prev rest g k = rmatch_seq rs pos prev rest g k"
| "rmatch (Alt r1 r2) pos prev rest g k =
     (case rmatch r1 pos prev rest g k of Some x \<Rightarrow> Some x | None \<Rightarrow> rmatch r2 pos prev rest g k)"
| "rmatch (Grp n r) pos prev rest g k =
     rmatch r pos prev rest g (\<lambda>pos' prev' rest' g'. k pos' prev' rest' ((n, (pos, pos')) # g'))"
| "rmatch Bol pos prev rest g k = (if prev = None then k pos prev rest g else None)"
| "rmatch BolM pos prev rest g k =
     (if prev = None \<or> prev = Some (CHR ''\<newline>'') then k pos prev rest g else None)"
| "rmatch Eol pos prev rest g k =
     (if rest = [] \<or> rest = ''\<newline>'' then k pos prev rest g else None)"
| "rmatch EolM pos prev rest g k =
     (if rest = [] \<or> startswith rest ''\<newline>'' then k pos prev rest g else None)"
| "rmatch EndZ pos prev rest g k = (if rest = [] then k pos prev rest g else None)"
| "rmatch (Ahead r) pos prev rest g k =
     (case rmatch r pos prev rest g (\<lambda>pos' prev' rest' g'. Some (pos', g')) of
        Some (pos', g') \<Rightarrow> k pos prev rest g'
      | None \<Rightarrow> None)"
| "rmatch_seq [] pos prev rest g k = k pos prev rest g"
| "rmatch_seq (r # rs) pos prev rest g k =
     rmatch r pos prev rest g (\<lambda>pos' prev' rest' g'. rmatch_seq rs pos' prev' rest' g' k)"

text \<open>A match object: the searched text, the span of the match, the spans of the groups.\<close>

record match_obj =
  m_string :: string
  m_start :: nat
  m_end :: nat
  m_groups :: groups

definition match_at :: "re \<Rightarrow> string \<Rightarrow> nat \<Rightarrow> char option \<Rightarrow> string \<Rightarrow> match_obj option" where
  "match_at r text pos prev rest =
     (case rmatch r pos prev rest [] (\<lambda>pos' prev' rest' g'. Some (pos', g')) of
        None \<Rightarrow> None
      | Some (pos', g') \<Rightarrow> Some \<lparr>m_string = text, m_start = pos, m_end = pos', m_groups = g'\<rparr>)"

text \<open>\<open>re.search\<close> tries every start position from the left, the end of the text included.\<close>

fun search_from :: "re \<Rightarrow> string \<Rightarrow> nat \<Rightarrow> char option \<Rightarrow> string \<Rightarrow> match_obj option" where
  "search_from r text pos prev [] = match_at r text pos prev []"
| "search_from r text pos prev (c # cs) =
     (case match_at r text pos prev (c # cs) of
        Some m \<Rightarrow> Some m
      | None \<Rightarrow> search_from r text (Suc pos) (Some c) cs)"

definition re_search :: "re \<Rightarrow> string \<Rightarrow> match_obj option" where
  "re_search r text = search_from r text 0 None text"

definition re_match :: "re \<Rightarrow> string \<Rightarrow> match_obj option" where
  "re_match r text = match_at r text 0 None text"

text \<open>\<open>m.group(n)\<close>: \<open>None\<close> for a group that took no part in the match.\<close>

definition group :: "match_obj \<Rightarrow> nat \<Rightarrow> string option" where
  "group m n =
     (case map_of (m_groups m) n of
        None \<Rightarrow> None
      | Some (s, e) \<Rightarrow> Some (take (e - s) (drop s (m_string m))))"

text \<open>
  The groups that take part in every match of a pattern: those outside any optional part
  and any alternative. \<open>grp\<close> reads such a group (see \<open>rmatch_sure\<close> below).
\<close>

fun sure :: "re \<Rightarrow> nat set" where
  "sure (Grp n r) = insert n (sure r)"
| "sure (Seq rs) = (\<Union>r \<in> set rs. sure r)"
| "sure (Alt r1 r2) = sure r1 \<inter> sure r2"
| "sure r = {}"

definition grp :: "match_obj \<Rightarrow> nat \<Rightarrow> string" where
  "grp m n = (case group m n of Some s \<Rightarrow> s | None \<Rightarrow> [])"


subsection \<open>The groups outside optional parts take part in every match\<close>

lemma lit_reach:
  "lit s pos prev rest g k = Some res \<Longrightarrow> \<exists>pos' prev' rest'. k pos' prev' rest' g = Some res"
  by (induction s pos prev rest g k rule: lit.induct) (auto split: if_splits)

lemma atom1_reach:
  "atom1 a pos prev rest g k = Some res \<Longrightarrow> \<exists>pos' prev' rest'. k pos' prev' rest' g = Some res"
  by (cases rest) (auto split: if_splits)

lemma star_reach:
  "star a pos prev rest g k = Some res \<Longrightarrow> \<exists>pos' prev' rest'. k pos' prev' rest' g = Some res"
  by (induction a pos prev rest g k rule: star.induct) (auto split: if_splits option.splits)

lemma lstar_reach:
  "lstar a pos prev rest g k = Some res \<Longrightarrow> \<exists>pos' prev' rest'. k pos' prev' rest' g = Some res"
  by (induction a pos prev rest g k rule: lstar.induct) (auto split: if_splits option.splits)

lemma rep_n_reach:
  "rep_n n a pos prev rest g k = Some res \<Longrightarrow> \<exists>pos' prev' rest'. k pos' prev' rest' g = Some res"
proof (induction n arbitrary: pos prev rest)
  case 0
  then show ?case by auto
next
  case (Suc n)
  from Suc.prems obtain p1 pr1 r1 where "rep_n n a p1 pr1 r1 g k = Some res"
    by (auto dest: atom1_reach)
  then show ?case by (rule Suc.IH)
qed

text \<open>The groups set in \<open>g\<close>.\<close>

definition gdom :: "groups \<Rightarrow> nat set" where
  "gdom g = fst ` set g"

lemma gdom_Cons: "gdom ((n, x) # g) = insert n (gdom g)"
  by (simp add: gdom_def)

text \<open>
  \<open>reaches S g k res\<close>: the continuation \<open>k\<close> gave \<open>res\<close> at a state whose groups extend
  \<open>g\<close> and include \<open>S\<close>.
\<close>

definition reaches :: "nat set \<Rightarrow> groups \<Rightarrow> cont \<Rightarrow> (nat \<times> groups) \<Rightarrow> bool" where
  "reaches S g k res = (\<exists>pos' prev' rest' g'. k pos' prev' rest' g' = Some res \<and> gdom g \<subseteq> gdom g' \<and> S \<subseteq> gdom g')"

lemma rmatch_seq_sure_aux:
  assumes each: "\<And>r pos prev rest g k res. r \<in> set rs \<Longrightarrow> rmatch r pos prev rest g k = Some res \<Longrightarrow> reaches (sure r) g k res"
  shows "rmatch_seq rs pos prev rest g k = Some res \<Longrightarrow> reaches (\<Union>r \<in> set rs. sure r) g k res"
  using each
proof (induction rs arbitrary: pos prev rest g)
  case Nil
  then show ?case by (auto simp: reaches_def)
next
  case (Cons r rs)
  from Cons.prems(1) have "rmatch r pos prev rest g (\<lambda>pos' prev' rest' g'. rmatch_seq rs pos' prev' rest' g' k) = Some res"
    by simp
  from Cons.prems(2)[OF _ this] obtain p1 pr1 r1 g1 where
    step: "rmatch_seq rs p1 pr1 r1 g1 k = Some res" and d1: "gdom g \<subseteq> gdom g1" and s1: "sure r \<subseteq> gdom g1"
    by (auto simp: reaches_def)
  have "reaches (\<Union>r \<in> set rs. sure r) g1 k res"
    using Cons.IH[OF step] Cons.prems(2) by simp
  then show ?case using d1 s1 by (auto simp: reaches_def) blast
qed

lemma reaches_same:
  "\<exists>pos' prev' rest'. k pos' prev' rest' g = Some res \<Longrightarrow> reaches {} g k res"
  by (auto simp: reaches_def)

lemma reaches_mono: "reaches S g k res \<Longrightarrow> T \<subseteq> S \<Longrightarrow> reaches T g k res"
  unfolding reaches_def by (meson order_trans)

lemma rmatch_sure: "rmatch r pos prev rest g k = Some res \<Longrightarrow> reaches (sure r) g k res"
proof (induction r arbitrary: pos prev rest g k res)
  case (Lit s)
  then show ?case by (simp add: reaches_same lit_reach)
next
  case (One a)
  then show ?case by (simp add: reaches_same atom1_reach)
next
  case (Star a)
  then show ?case by (simp add: reaches_same star_reach)
next
  case (Plus a)
  then obtain p1 pr1 r1 where "star a p1 pr1 r1 g k = Some res"
    by (auto dest: atom1_reach)
  then show ?case by (simp add: reaches_same star_reach)
next
  case (LStar a)
  then show ?case by (simp add: reaches_same lstar_reach)
next
  case (LPlus a)
  then obtain p1 pr1 r1 where "lstar a p1 pr1 r1 g k = Some res"
    by (auto dest: atom1_reach)
  then show ?case by (simp add: reaches_same lstar_reach)
next
  case (Times n a)
  then show ?case by (simp add: reaches_same rep_n_reach)
next
  case (Opt r)
  show ?case
  proof (cases "rmatch r pos prev rest g k")
    case None
    with Opt.prems show ?thesis by (auto simp: reaches_def)
  next
    case (Some x)
    with Opt.prems have "rmatch r pos prev rest g k = Some res" by simp
    from Opt.IH[OF this] show ?thesis by (rule reaches_mono) simp
  qed
next
  case (Seq rs)
  have "reaches (\<Union>r \<in> set rs. sure r) g k res"
    by (rule rmatch_seq_sure_aux) (use Seq in auto)
  then show ?case by simp
next
  case (Alt r1 r2)
  show ?case
  proof (cases "rmatch r1 pos prev rest g k")
    case None
    with Alt.prems have "rmatch r2 pos prev rest g k = Some res" by simp
    from Alt.IH(2)[OF this] show ?thesis by (rule reaches_mono) simp
  next
    case (Some x)
    with Alt.prems have "rmatch r1 pos prev rest g k = Some res" by simp
    from Alt.IH(1)[OF this] show ?thesis by (rule reaches_mono) simp
  qed
next
  case (Grp n r)
  from Grp.prems have "rmatch r pos prev rest g (\<lambda>pos' prev' rest' g'. k pos' prev' rest' ((n, (pos, pos')) # g')) = Some res"
    by simp
  from Grp.IH[OF this] obtain p1 pr1 r1 g1 where
    k: "k p1 pr1 r1 ((n, (pos, p1)) # g1) = Some res" and d: "gdom g \<subseteq> gdom g1"
    and s: "sure r \<subseteq> gdom g1"
    unfolding reaches_def by blast
  have "gdom g \<subseteq> gdom ((n, (pos, p1)) # g1)"
    "sure (Grp n r) \<subseteq> gdom ((n, (pos, p1)) # g1)"
    using d s by (auto simp: gdom_Cons)
  with k show ?case unfolding reaches_def by blast
next
  case (Ahead r)
  from Ahead.prems obtain p1 g1 where
    a: "rmatch r pos prev rest g (\<lambda>pos' prev' rest' g'. Some (pos', g')) = Some (p1, g1)"
    and b: "k pos prev rest g1 = Some res"
    by (auto split: option.splits)
  from Ahead.IH[OF a] have "gdom g \<subseteq> gdom g1" by (auto simp: reaches_def)
  with b show ?case by (auto simp: reaches_def)
qed (auto simp: reaches_def split: if_splits)

lemma match_at_sure: "match_at r text pos prev rest = Some m \<Longrightarrow> n \<in> sure r \<Longrightarrow> group m n \<noteq> None"
proof -
  assume m: "match_at r text pos prev rest = Some m" and n: "n \<in> sure r"
  from m obtain p1 g1 where
    a: "rmatch r pos prev rest [] (\<lambda>pos' prev' rest' g'. Some (pos', g')) = Some (p1, g1)"
    and m_eq: "m_groups m = g1"
    by (auto simp: match_at_def split: option.splits)
  from rmatch_sure[OF a] n have "n \<in> gdom g1" by (auto simp: reaches_def)
  then have "map_of g1 n \<noteq> None" by (simp add: map_of_eq_None_iff gdom_def)
  with m_eq show ?thesis by (auto simp: group_def split: option.splits)
qed

lemma search_from_sure: "search_from r text pos prev rest = Some m \<Longrightarrow> n \<in> sure r \<Longrightarrow> group m n \<noteq> None"
  by (induction r "text" pos prev rest rule: search_from.induct)
     (auto split: option.splits dest: match_at_sure)

subsection \<open>A pattern that begins with a literal matches only where the literal occurs\<close>





subsection \<open>Scanning for all matches\<close>

text \<open>
  \<open>re.sub\<close> and \<open>re.finditer\<close> scan for matches from the left without overlap. After a
  match that is not empty the scan goes on at its end. After an empty match the next match
  must either start at the same place and not be empty, or start further right.
\<close>

definition match_nonempty_at :: "re \<Rightarrow> string \<Rightarrow> nat \<Rightarrow> char option \<Rightarrow> string \<Rightarrow> match_obj option" where
  "match_nonempty_at r text pos prev rest =
     (case rmatch r pos prev rest []
             (\<lambda>pos' prev' rest' g'. if pos' \<le> pos then None else Some (pos', g')) of
        None \<Rightarrow> None
      | Some (pos', g') \<Rightarrow> Some \<lparr>m_string = text, m_start = pos, m_end = pos', m_groups = g'\<rparr>)"

text \<open>
  The matches of a scan, in order. The last argument counts the characters still to be
  skipped because they lie inside the match found last.
\<close>

function find_loop :: "re \<Rightarrow> string \<Rightarrow> nat \<Rightarrow> char option \<Rightarrow> string \<Rightarrow> nat \<Rightarrow> match_obj list" where
  "find_loop r text pos prev [] (Suc k) = []"
| "find_loop r text pos prev (c # cs) (Suc k) = find_loop r text (Suc pos) (Some c) cs k"
| "find_loop r text pos prev rest 0 =
     (case match_at r text pos prev rest of
        None \<Rightarrow>
          (case rest of [] \<Rightarrow> [] | c # cs \<Rightarrow> find_loop r text (Suc pos) (Some c) cs 0)
      | Some m \<Rightarrow>
          if m_end m > pos then m # find_loop r text pos prev rest (m_end m - pos)
          else (case match_nonempty_at r text pos prev rest of
                  Some m' \<Rightarrow> m # m' # find_loop r text pos prev rest (m_end m' - pos)
                | None \<Rightarrow>
                    (case rest of
                       [] \<Rightarrow> [m]
                     | c # cs \<Rightarrow> m # find_loop r text (Suc pos) (Some c) cs 0)))"
  by pat_completeness auto
termination
proof (relation "measure (\<lambda>(r, t, pos, prev, rest, k). 2 * length rest + (if k = 0 then 1 else 0))")
  fix r :: re and t :: string and pos :: nat and prev :: "char option" and rest :: string
    and m m2 :: match_obj
  assume "match_nonempty_at r t pos prev rest = Some m2"
  then obtain e g where
    run: "rmatch r pos prev rest [] (\<lambda>pos' prev' rest' g'. if pos' \<le> pos then None else Some (pos', g'))
            = Some (e, g)"
    and e: "m_end m2 = e"
    by (auto simp: match_nonempty_at_def split: option.splits)
  from rmatch_sure[OF run] have "pos < e"
    by (auto simp: reaches_def split: if_splits)
  with e have "pos < m_end m2" by simp
  then show "((r, t, pos, prev, rest, m_end m2 - pos), r, t, pos, prev, rest, 0)
      \<in> measure (\<lambda>(r, t, pos, prev, rest, k). 2 * length rest + (if k = 0 then 1 else 0))"
    by simp
qed auto

definition re_finditer :: "re \<Rightarrow> string \<Rightarrow> match_obj list" where
  "re_finditer r text = find_loop r text 0 None text 0"

text \<open>
  \<open>re.sub(pattern, repl, text)\<close>: the text with each match replaced by what \<open>repl\<close> makes
  of it. A template such as \<^verbatim>\<open>r'\1,\n\2'\<close> is written as the function of the match it
  stands for.
\<close>

fun sub_pieces :: "(match_obj \<Rightarrow> string) \<Rightarrow> string \<Rightarrow> nat \<Rightarrow> match_obj list \<Rightarrow> string" where
  "sub_pieces repl text i [] = drop i text"
| "sub_pieces repl text i (m # ms) =
     take (m_start m - i) (drop i text) @ repl m @ sub_pieces repl text (m_end m) ms"

definition re_sub :: "re \<Rightarrow> (match_obj \<Rightarrow> string) \<Rightarrow> string \<Rightarrow> string" where
  "re_sub r repl text = sub_pieces repl text 0 (re_finditer r text)"

section \<open>The report: \<open>helper/__init__.py\<close>\<close>

record RawData =
  rd_raw :: bytes
  rd_lines :: "bytes list"

text \<open>\<open>RawData(raw)\<close>\<close>

definition mk_RawData :: "bytes \<Rightarrow> RawData" where
  "mk_RawData raw = \<lparr>rd_raw = raw, rd_lines = split_sep ''\<newline>'' (strip raw)\<rparr>"

text \<open>A double-quoted word inside a message.\<close>

definition quoted :: "string \<Rightarrow> string" where
  "quoted s = CHR 0x22 # s @ [CHR 0x22]"

section \<open>Process table: \<open>process/__init__.py\<close>\<close>

text \<open>
  \<open>Process.add_thread\<close> walks \<open>thread_info.__dict__\<close>, so an object is modelled as its
  attribute dictionary, in insertion order.
\<close>

type_synonym pyobj = "(string \<times> pyval) list"

fun getattr :: "pyobj \<Rightarrow> string \<Rightarrow> pyval option" where
  "getattr [] key = None"
| "getattr ((k, v) # kvs) key = (if k = key then Some v else getattr kvs key)"

fun setattr :: "pyobj \<Rightarrow> string \<Rightarrow> pyval \<Rightarrow> pyobj" where
  "setattr [] key value = [(key, value)]"
| "setattr ((k, v) # kvs) key value =
     (if k = key then (k, value) # kvs else (k, v) # setattr kvs key value)"

text \<open>\<open>ThreadInfo()\<close>: every field at its declared default.\<close>

definition ThreadInfo :: pyobj where
  "ThreadInfo =
    [(''pid'', PInt 0), (''tid'', PInt 0), (''user'', PBytes ''''), (''name'', PBytes ''''),
     (''state'', PBytes ''''), (''cmd'', PBytes ''''),
     (''label'', PBytes ''''), (''ppid'', PInt 0), (''vsz'', PBytes ''''), (''rss'', PBytes ''''),
     (''wchan'', PBytes ''''), (''addr'', PBytes ''''), (''pri'', PBytes ''''), (''ni'', PBytes ''''),
     (''rtprio'', PBytes ''''), (''sched'', PBytes ''''), (''pcy'', PBytes ''''), (''time'', PBytes ''''),
     (''cpu_percent'', PFloat ''0.0''), (''virt'', PBytes ''''), (''res'', PBytes '''')]"

record Process =
  p_pid :: int
  p_user :: bytes
  p_name :: bytes
  p_threads :: "pyval \<rightharpoonup> pyobj"

text \<open>
  The merge loop of \<open>add_thread\<close>:
  \<^verbatim>\<open>for key, value in thread_info.__dict__.items():
    if value is not None:
        setattr(self.threads[thread_info.tid], key, value)\<close>
\<close>

fun merge_items :: "pyobj \<Rightarrow> (string \<times> pyval) list \<Rightarrow> pyobj" where
  "merge_items target [] = target"
| "merge_items target ((key, value) # items) =
     (if value \<noteq> PNone then merge_items (setattr target key value) items
      else merge_items target items)"

text \<open>
  \<open>thread_info.tid\<close> raises \<open>AttributeError\<close> on an object without that attribute; a
  \<open>ThreadInfo\<close> always has it.
\<close>

definition add_thread :: "Process \<Rightarrow> pyobj \<Rightarrow> error + Process" where
  "add_thread self thread_info =
     (case getattr thread_info ''tid'' of
        None \<Rightarrow> Inl AttributeError
      | Some tid \<Rightarrow>
          (case p_threads self tid of
             None \<Rightarrow> Inr (self\<lparr>p_threads := (p_threads self)(tid \<mapsto> thread_info)\<rparr>)
           | Some first \<Rightarrow>
               Inr (self\<lparr>p_threads := (p_threads self)(tid \<mapsto> merge_items first thread_info)\<rparr>)))"

text \<open>
  The two objects \<open>ThreadInfo.parse\<close> builds for thread 1234 of process 1234: from the
  \<open>top\<close> line
  \<^verbatim>\<open>1234 1234 system 20 0 12.5 S 1.2G 80M fg app.main com.example.app\<close>
  and from the \<open>ps\<close> line
  \<^verbatim>\<open>u:r:app:s0 system 1234 1234 1 1258291 81920 0 0 S 19 0 - 0 fg 00:00:07 com.example.app\<close>
\<close>

definition top_thread :: pyobj where
  "top_thread =
    [(''pid'', PInt 1234), (''tid'', PInt 1234), (''user'', PBytes ''system''),
     (''name'', PBytes ''com.example.app''), (''state'', PBytes ''S''), (''cmd'', PBytes ''app.main''),
     (''label'', PBytes ''''), (''ppid'', PInt 0), (''vsz'', PBytes ''''), (''rss'', PBytes ''''),
     (''wchan'', PBytes ''''), (''addr'', PBytes ''''), (''pri'', PBytes ''''), (''ni'', PBytes ''0''),
     (''rtprio'', PBytes ''''), (''sched'', PBytes ''''), (''pcy'', PBytes ''fg''), (''time'', PBytes ''''),
     (''cpu_percent'', PFloat ''12.5''), (''virt'', PBytes ''1.2G''), (''res'', PBytes ''80M''),
     (''_parsers'', PMethods), (''pr'', PBytes ''20'')]"

definition ps_thread :: pyobj where
  "ps_thread =
    [(''pid'', PInt 1234), (''tid'', PInt 1234), (''user'', PBytes ''system''),
     (''name'', PBytes ''com.example.app''), (''state'', PBytes ''S''), (''cmd'', PBytes ''''),
     (''label'', PBytes ''u:r:app:s0''), (''ppid'', PInt 1), (''vsz'', PBytes ''1258291''),
     (''rss'', PBytes ''81920''), (''wchan'', PBytes ''0''), (''addr'', PBytes ''0''),
     (''pri'', PBytes ''19''), (''ni'', PBytes ''0''), (''rtprio'', PBytes ''-''),
     (''sched'', PBytes ''0''), (''pcy'', PBytes ''fg''), (''time'', PBytes ''00:00:07''),
     (''cpu_percent'', PFloat ''0.0''), (''virt'', PBytes ''''), (''res'', PBytes ''''),
     (''_parsers'', PMethods)]"

definition process_1234 :: Process where
  "process_1234 =
     \<lparr>p_pid = 1234, p_user = ''system'', p_name = ''com.example.app'',
      p_threads = [PInt 1234 \<mapsto> top_thread]\<rparr>"

subsection \<open>Facts about the merge\<close>

lemma getattr_setattr: "getattr (setattr obj k v) key = (if key = k then Some v else getattr obj key)"
  by (induction obj) auto

lemma getattr_merge_items_absent:
  "key \<notin> fst ` set items \<Longrightarrow> getattr (merge_items target items) key = getattr target key"
  by (induction items arbitrary: target) (auto simp: getattr_setattr)

lemma getattr_merge_items:
  "distinct (map fst items) \<Longrightarrow> (key, value) \<in> set items \<Longrightarrow> value \<noteq> PNone \<Longrightarrow>
     getattr (merge_items target items) key = Some value"
proof (induction items arbitrary: target)
  case Nil
  then show ?case by simp
next
  case (Cons item items)
  obtain k v where item: "item = (k, v)" by (cases item)
  show ?case
  proof (cases "(key, value) = item")
    case True
    with Cons.prems item have "key \<notin> fst ` set items" by auto
    with True item Cons.prems show ?thesis
      by (simp add: getattr_merge_items_absent getattr_setattr)
  next
    case False
    with Cons.prems item have "(key, value) \<in> set items" "distinct (map fst items)" by auto
    with Cons.IH Cons.prems(3) item show ?thesis by simp
  qed
qed

text \<open>
  C1. The claim: when a second \<open>ThreadInfo\<close> for a thread id is merged by
  \<open>Process.add_thread\<close>, only its non-empty fields overwrite the first record and its empty
  fields keep the first record's values. The code tests \<open>value is not None\<close>, and an empty
  field of a \<open>ThreadInfo\<close> is \<open>b''\<close>, \<open>0\<close> or \<open>0.0\<close>, never \<open>None\<close>: merging the
  \<open>ps\<close> record of thread 1234 into its \<open>top\<close> record replaces \<open>virt\<close>, \<open>res\<close>,
  \<open>cmd\<close> and \<open>cpu_percent\<close> by the empty values of the \<open>ps\<close> record.
\<close>

theorem add_thread_empty_fields_overwrite:
  "\<exists>p. add_thread process_1234 ps_thread = Inr p \<and>
       (\<exists>merged. p_threads p (PInt 1234) = Some merged \<and>
          getattr top_thread ''virt'' = Some (PBytes ''1.2G'') \<and>
          getattr ps_thread ''virt'' = Some (PBytes '''') \<and>
          getattr merged ''virt'' = Some (PBytes '''') \<and>
          getattr merged ''res'' = Some (PBytes '''') \<and>
          getattr merged ''cmd'' = Some (PBytes '''') \<and>
          getattr merged ''cpu_percent'' = Some (PFloat ''0.0''))"
  by (simp add: add_thread_def process_1234_def ps_thread_def top_thread_def)

section \<open>Mount points: \<open>mount/__init__.py\<close>\<close>

record MountPoint =
  mp_device :: bytes
  mp_path :: bytes
  mp_mount_type :: bytes
  mp_options :: "bytes list"

text \<open>\<open>MountPoint()\<close>\<close>

definition new_MountPoint :: MountPoint where
  "new_MountPoint = \<lparr>mp_device = '''', mp_path = '''', mp_mount_type = '''', mp_options = []\<rparr>"

text \<open>\<^verbatim>\<open>rb'(\S+)\s+on\s+(\S+)\s+type\s+(\S+)\s+\((.*?)\)'\<close>\<close>

definition mount_line_re :: re where
  "mount_line_re =
     Seq [Grp 1 (Plus (AnyOf [CNonSpace])), Plus (AnyOf [CSpace]), Lit ''on'', Plus (AnyOf [CSpace]),
          Grp 2 (Plus (AnyOf [CNonSpace])), Plus (AnyOf [CSpace]), Lit ''type'', Plus (AnyOf [CSpace]),
          Grp 3 (Plus (AnyOf [CNonSpace])), Plus (AnyOf [CSpace]),
          Lit ''('', Grp 4 (LStar Dot), Lit '')'']"

definition MountPoint_parse :: "MountPoint \<Rightarrow> bytes \<Rightarrow> MountPoint" where
  "MountPoint_parse self raw =
     (case re_match mount_line_re (strip raw) of
        None \<Rightarrow> self
      | Some m \<Rightarrow>
          self\<lparr>mp_device := grp m 1, mp_path := grp m 2, mp_mount_type := grp m 3,
               mp_options := map strip (split_sep '','' (grp m 4))\<rparr>)"

text \<open>\<^verbatim>\<open>rb'------ MOUNT POINT DUMP \(mount\) ------\n(.*?)\n------'\<close> with \<open>re.DOTALL\<close>\<close>

definition mount_section_re :: re where
  "mount_section_re =
     Seq [Lit ''------ MOUNT POINT DUMP (mount) ------\<newline>'', Grp 1 (LStar DotAll),
          Lit ''\<newline>------'']"

text \<open>The loop over the section's lines, with the list built so far.\<close>

fun mount_loop :: "bytes list \<Rightarrow> MountPoint list \<Rightarrow> MountPoint list" where
  "mount_loop [] mount_points = mount_points"
| "mount_loop (line # lines) mount_points =
     (if strip line \<noteq> []
      then mount_loop lines (mount_points @ [MountPoint_parse new_MountPoint line])
      else mount_loop lines mount_points)"

definition parse_mount_points :: "RawData \<Rightarrow> log_record list \<times> MountPoint list option" where
  "parse_mount_points dumpstate_content =
     ([Info (''Parsing '' @ quoted ''MOUNT POINT DUMP'' @ '' section...'')],
      case re_search mount_section_re (rd_raw dumpstate_content) of
        None \<Rightarrow> None
      | Some mount_section_match \<Rightarrow>
          Some (mount_loop (split_sep ''\<newline>'' (strip (grp mount_section_match 1))) []))"

text \<open>A report with a well-formed mount line, a line of another shape and a blank line.\<close>

definition mount_report :: bytes where
  "mount_report =
     ''------ MOUNT POINT DUMP (mount) ------\<newline>/dev/root on / type ext4 (rw,seclabel)\<newline>no mount here\<newline>\<newline>------ x''"

subsection \<open>One record for each line that is not blank\<close>

lemma mount_line_groups:
  assumes "re_match mount_line_re line = Some m"
  shows "group m 1 \<noteq> None \<and> group m 2 \<noteq> None \<and> group m 3 \<noteq> None \<and> group m 4 \<noteq> None"
proof -
  have "n \<in> sure mount_line_re \<Longrightarrow> group m n \<noteq> None" for n
    using assms unfolding re_match_def by (rule match_at_sure)
  then show ?thesis by (simp add: mount_line_re_def)
qed

lemma mount_loop_eq:
  "mount_loop lines acc =
     acc @ map (MountPoint_parse new_MountPoint) (filter (\<lambda>l. strip l \<noteq> []) lines)"
  by (induction lines arbitrary: acc) auto

text \<open>
  C10. Once the MOUNT POINT DUMP section is located, \<open>parse_mount_points\<close> returns one
  record for each line of the section that is not blank (\<open>line.strip()\<close> is not empty), in
  order: the list is as long as the list of those lines, the record of a line is what
  \<open>MountPoint.parse\<close> makes of it, and a line that does not match the mount pattern gives
  the record with every field at its default.
\<close>

theorem parse_mount_points_one_record_per_line:
  assumes "snd (parse_mount_points dumpstate_content) = Some mount_points"
  shows "\<exists>m. re_search mount_section_re (rd_raw dumpstate_content) = Some m \<and>
           (let lines = filter (\<lambda>l. strip l \<noteq> []) (split_sep ''\<newline>'' (strip (grp m 1)))
            in length mount_points = length lines \<and>
               (\<forall>i < length lines.
                  mount_points ! i = MountPoint_parse new_MountPoint (lines ! i) \<and>
                  (re_match mount_line_re (strip (lines ! i)) = None \<longrightarrow>
                     mount_points ! i = new_MountPoint)))"
proof -
  from assms obtain m where
    m: "re_search mount_section_re (rd_raw dumpstate_content) = Some m"
    and mps: "mount_points = mount_loop (split_sep ''\<newline>'' (strip (grp m 1))) []"
    by (auto simp: parse_mount_points_def split: option.splits)
  define lines where
    "lines = filter (\<lambda>l. strip l \<noteq> []) (split_sep ''\<newline>'' (strip (grp m 1)))"
  have eq: "mount_points = map (MountPoint_parse new_MountPoint) lines"
    unfolding mps lines_def by (simp add: mount_loop_eq)
  have none: "re_match mount_line_re (strip l) = None \<Longrightarrow>
      MountPoint_parse new_MountPoint l = new_MountPoint" for l
    by (simp add: MountPoint_parse_def)
  have "length mount_points = length lines \<and>
               (\<forall>i < length lines.
                  mount_points ! i = MountPoint_parse new_MountPoint (lines ! i) \<and>
                  (re_match mount_line_re (strip (lines ! i)) = None \<longrightarrow>
                     mount_points ! i = new_MountPoint))"
    unfolding eq using none by simp
  with m show ?thesis unfolding lines_def Let_def by blast
qed

theorem parse_mount_points_one_record_per_line_witness:
  "snd (parse_mount_points (mk_RawData mount_report)) =
     Some [\<lparr>mp_device = ''/dev/root'', mp_path = ''/'', mp_mount_type = ''ext4'',
              mp_options = [''rw'', ''seclabel'']\<rparr>, new_MountPoint] \<and>
   (\<exists>m. re_search mount_section_re (rd_raw (mk_RawData mount_report)) = Some m \<and>
      length (filter (\<lambda>l. strip l \<noteq> []) (split_sep ''\<newline>'' (strip (grp m 1)))) = 2)"
proof -
  have h: "snd (parse_mount_points (mk_RawData mount_report)) =
     Some [\<lparr>mp_device = ''/dev/root'', mp_path = ''/'', mp_mount_type = ''ext4'',
              mp_options = [''rw'', ''seclabel'']\<rparr>, new_MountPoint]"
    by code_simp
  from parse_mount_points_one_record_per_line[OF h] h show ?thesis
    by (auto simp: Let_def)
qed

section \<open>Kernel modules: \<open>kernel/lsmod.py\<close>\<close>







section \<open>The \<open>json\<close> module\<close>

text \<open>
  \<open>json.loads\<close> is read here as the function it computes: the value of a text that is
  valid JSON (with Python's extensions \<open>NaN\<close>, \<open>Infinity\<close> and \<open>-Infinity\<close>), and a
  \<open>JSONDecodeError\<close>, a \<open>ValueError\<close>, for any other text. The text is cut into tokens and
  the tokens are assembled with an explicit stack of the containers that are still open. An
  object keeps its keys in the order of their first occurrence, the last value of a
  repeated key winning, as a \<open>dict\<close> does.
\<close>

datatype jtok = TLBrace | TRBrace | TLBrack | TRBrack | TComma | TColon | TString string | TWord string

datatype lexmode = Idle | InWord string | InStr string | InEsc string | InU string string

definition is_json_ws :: "char \<Rightarrow> bool" where
  "is_json_ws c = (c = CHR '' '' \<or> c = CHR 0x09 \<or> c = CHR ''\<newline>'' \<or> c = CHR 0x0D)"

text \<open>The characters of numbers and of the literal names.\<close>

definition is_bare :: "char \<Rightarrow> bool" where
  "is_bare c = (let n = (of_char c :: nat) in
     (48 \<le> n \<and> n \<le> 57) \<or> (65 \<le> n \<and> n \<le> 90) \<or> (97 \<le> n \<and> n \<le> 122) \<or>
     c = CHR ''+'' \<or> c = CHR ''-'' \<or> c = CHR ''.'')"

definition hex_value :: "char \<Rightarrow> nat option" where
  "hex_value c = (let n = (of_char c :: nat) in
     if 48 \<le> n \<and> n \<le> 57 then Some (n - 48)
     else if 65 \<le> n \<and> n \<le> 70 then Some (n - 55)
     else if 97 \<le> n \<and> n \<le> 102 then Some (n - 87)
     else None)"

text \<open>One character read between two tokens.\<close>

definition lex_idle :: "char \<Rightarrow> error + (jtok list \<times> lexmode)" where
  "lex_idle c =
     (if is_json_ws c then Inr ([], Idle)
      else if c = CHR ''{'' then Inr ([TLBrace], Idle)
      else if c = CHR ''}'' then Inr ([TRBrace], Idle)
      else if c = CHR ''['' then Inr ([TLBrack], Idle)
      else if c = CHR '']'' then Inr ([TRBrack], Idle)
      else if c = CHR '','' then Inr ([TComma], Idle)
      else if c = CHR '':'' then Inr ([TColon], Idle)
      else if c = CHR 0x22 then Inr ([], InStr [])
      else if is_bare c then Inr ([], InWord [c])
      else Inl ValueError)"

text \<open>The character an escape \<open>\c\<close> stands for.\<close>

definition unescape :: "char \<Rightarrow> char option" where
  "unescape c =
     (if c = CHR 0x22 \<or> c = CHR 0x5C \<or> c = CHR ''/'' then Some c
      else if c = CHR ''b'' then Some (CHR 0x08)
      else if c = CHR ''f'' then Some (CHR 0x0C)
      else if c = CHR ''n'' then Some (CHR ''\<newline>'')
      else if c = CHR ''r'' then Some (CHR 0x0D)
      else if c = CHR ''t'' then Some (CHR 0x09)
      else None)"

definition hex4 :: "string \<Rightarrow> nat" where
  "hex4 ds = foldl (\<lambda>acc d. 16 * acc + (case hex_value d of Some v \<Rightarrow> v | None \<Rightarrow> 0)) 0 ds"

fun jlex :: "lexmode \<Rightarrow> string \<Rightarrow> error + jtok list" where
  "jlex Idle [] = Inr []"
| "jlex (InWord w) [] = Inr [TWord w]"
| "jlex (InStr s) [] = Inl ValueError"
| "jlex (InEsc s) [] = Inl ValueError"
| "jlex (InU s ds) [] = Inl ValueError"
| "jlex Idle (c # cs) =
     (case lex_idle c of
        Inl e \<Rightarrow> Inl e
      | Inr (ts, mode) \<Rightarrow>
          (case jlex mode cs of Inl e \<Rightarrow> Inl e | Inr toks \<Rightarrow> Inr (ts @ toks)))"
| "jlex (InWord w) (c # cs) =
     (if is_bare c then jlex (InWord (w @ [c])) cs
      else (case lex_idle c of
              Inl e \<Rightarrow> Inl e
            | Inr (ts, mode) \<Rightarrow>
                (case jlex mode cs of Inl e \<Rightarrow> Inl e | Inr toks \<Rightarrow> Inr (TWord w # ts @ toks))))"
| "jlex (InStr s) (c # cs) =
     (if c = CHR 0x22 then
        (case jlex Idle cs of Inl e \<Rightarrow> Inl e | Inr toks \<Rightarrow> Inr (TString s # toks))
      else if c = CHR 0x5C then jlex (InEsc s) cs
      else if (of_char c :: nat) < 32 then Inl ValueError
      else jlex (InStr (s @ [c])) cs)"
| "jlex (InEsc s) (c # cs) =
     (if c = CHR ''u'' then jlex (InU s []) cs
      else (case unescape c of
              None \<Rightarrow> Inl ValueError
            | Some d \<Rightarrow> jlex (InStr (s @ [d])) cs))"
| "jlex (InU s ds) (c # cs) =
     (if hex_value c = None then Inl ValueError
      else if length ds < 3 then jlex (InU s (ds @ [c])) cs
      else if hex4 (ds @ [c]) < 256 then jlex (InStr (s @ [char_of (hex4 (ds @ [c]))])) cs
      else Inl NotLatin1)"

text \<open>
  A number is \<^verbatim>\<open>-?(0|[1-9]\d*)(\.\d+)?([eE][-+]?\d+)?\<close>: an \<open>int\<close> without fraction and
  exponent, else a \<open>float\<close>.
\<close>

definition json_number_re :: re where
  "json_number_re =
     Seq [Opt (Lit ''-''),
          Alt (Lit ''0'') (Seq [One (AnyOf [Rng CHR ''1'' CHR ''9'']), Star (AnyOf [CDigit])]),
          Opt (Grp 1 (Seq [Lit ''.'', Plus (AnyOf [CDigit])])),
          Opt (Grp 2 (Seq [One (AnyOf [Ch CHR ''e'', Ch CHR ''E'']),
                           Opt (One (AnyOf [Ch CHR ''-'', Ch CHR ''+''])), Plus (AnyOf [CDigit])])),
          EndZ]"

definition json_word :: "string \<Rightarrow> error + pyval" where
  "json_word w =
     (if w = ''true'' then Inr (PBool True)
      else if w = ''false'' then Inr (PBool False)
      else if w = ''null'' then Inr PNone
      else if w = ''NaN'' \<or> w = ''Infinity'' \<or> w = ''-Infinity'' then Inr (PFloat w)
      else (case re_match json_number_re w of
              None \<Rightarrow> Inl ValueError
            | Some m \<Rightarrow>
                if group m 1 = None \<and> group m 2 = None
                then (case py_int w of Inl e \<Rightarrow> Inl e | Inr n \<Rightarrow> Inr (PInt n))
                else Inr (PFloat w)))"

text \<open>\<open>d[key] = value\<close>\<close>

fun dict_set :: "('k \<times> 'v) list \<Rightarrow> 'k \<Rightarrow> 'v \<Rightarrow> ('k \<times> 'v) list" where
  "dict_set [] key v = [(key, v)]"
| "dict_set ((k, old) # kvs) key v =
     (if k = key then (k, v) # kvs else (k, old) # dict_set kvs key v)"

text \<open>
  The containers still open, innermost first, and what may come next: a value, a value or
  \<open>]\<close> (just after \<open>[\<close>), a key or \<open>}\<close> (just after \<open>{\<close>), a key (after a comma in an
  object), the colon after a key, a comma or the closing bracket, or nothing (the value is
  complete).
\<close>

datatype jframe = FArr "pyval list" | FObj "(string \<times> pyval) list" | FKey "(string \<times> pyval) list" string

datatype jexpect = XValue | XValueOrEnd | XKeyOrEnd | XKey | XColon | XCommaOrEnd | XDone pyval

text \<open>A value is complete: it goes into the innermost open container.\<close>

fun jput :: "pyval \<Rightarrow> jframe list \<Rightarrow> (jframe list \<times> jexpect) option" where
  "jput v [] = Some ([], XDone v)"
| "jput v (FArr vs # st) = Some (FArr (vs @ [v]) # st, XCommaOrEnd)"
| "jput v (FKey kvs key # st) = Some (FObj (dict_set kvs key v) # st, XCommaOrEnd)"
| "jput v (FObj kvs # st) = None"

definition jstep :: "jtok \<Rightarrow> jframe list \<Rightarrow> jexpect \<Rightarrow> error + (jframe list \<times> jexpect)" where
  "jstep t st x =
     (let value_start =
            (case t of
               TString s \<Rightarrow> (case jput (PStr s) st of None \<Rightarrow> Inl ValueError | Some r \<Rightarrow> Inr r)
             | TWord w \<Rightarrow>
                 (case json_word w of
                    Inl e \<Rightarrow> Inl e
                  | Inr v \<Rightarrow> (case jput v st of None \<Rightarrow> Inl ValueError | Some r \<Rightarrow> Inr r))
             | TLBrace \<Rightarrow> Inr (FObj [] # st, XKeyOrEnd)
             | TLBrack \<Rightarrow> Inr (FArr [] # st, XValueOrEnd)
             | _ \<Rightarrow> Inl ValueError);
          close =
            (case (t, st) of
               (TRBrack, FArr vs # st') \<Rightarrow>
                 (case jput (PList vs) st' of None \<Rightarrow> Inl ValueError | Some r \<Rightarrow> Inr r)
             | (TRBrace, FObj kvs # st') \<Rightarrow>
                 (case jput (PDict kvs) st' of None \<Rightarrow> Inl ValueError | Some r \<Rightarrow> Inr r)
             | _ \<Rightarrow> Inl ValueError);
          key =
            (case (t, st) of
               (TString k, FObj kvs # st') \<Rightarrow> Inr (FKey kvs k # st', XColon)
             | _ \<Rightarrow> Inl ValueError)
      in case x of
           XValue \<Rightarrow> value_start
         | XValueOrEnd \<Rightarrow> (if t = TRBrack then close else value_start)
         | XKeyOrEnd \<Rightarrow> (if t = TRBrace then close else key)
         | XKey \<Rightarrow> key
         | XColon \<Rightarrow> (if t = TColon then Inr (st, XValue) else Inl ValueError)
         | XCommaOrEnd \<Rightarrow>
             (if t = TComma
              then (case st of
                      FArr vs # st' \<Rightarrow> Inr (st, XValue)
                    | FObj kvs # st' \<Rightarrow> Inr (st, XKey)
                    | _ \<Rightarrow> Inl ValueError)
              else close)
         | XDone v \<Rightarrow> Inl ValueError)"

fun jparse :: "jtok list \<Rightarrow> jframe list \<Rightarrow> jexpect \<Rightarrow> error + pyval" where
  "jparse [] st x = (case x of XDone v \<Rightarrow> Inr v | _ \<Rightarrow> Inl ValueError)"
| "jparse (t # ts) st x =
     (case jstep t st x of
        Inl e \<Rightarrow> Inl e
      | Inr (st', x') \<Rightarrow> jparse ts st' x')"

definition json_loads :: "string \<Rightarrow> error + pyval" where
  "json_loads s = (case jlex Idle s of Inl e \<Rightarrow> Inl e | Inr toks \<Rightarrow> jparse toks [] XValue)"

text \<open>
  \<open>json.dumps(s)\<close> for a \<open>str\<close>: quotes around the text, with the quote and the backslash
  escaped and every character outside \<open>' '..'~'\<close> written as an escape.
\<close>

definition hex_digit :: "nat \<Rightarrow> char" where
  "hex_digit n = (if n < 10 then char_of (48 + n) else char_of (87 + n))"

definition json_escape_char :: "char \<Rightarrow> string" where
  "json_escape_char c =
     (let n = (of_char c :: nat) in
      if c = CHR 0x22 then [CHR 0x5C, CHR 0x22]
      else if c = CHR 0x5C then [CHR 0x5C, CHR 0x5C]
      else if c = CHR ''\<newline>'' then [CHR 0x5C, CHR ''n'']
      else if c = CHR 0x0D then [CHR 0x5C, CHR ''r'']
      else if c = CHR 0x09 then [CHR 0x5C, CHR ''t'']
      else if c = CHR 0x08 then [CHR 0x5C, CHR ''b'']
      else if c = CHR 0x0C then [CHR 0x5C, CHR ''f'']
      else if 32 \<le> n \<and> n \<le> 126 then [c]
      else [CHR 0x5C, CHR ''u'', CHR ''0'', CHR ''0'', hex_digit (n div 16), hex_digit (n mod 16)])"

definition json_dumps_str :: "string \<Rightarrow> string" where
  "json_dumps_str s = quoted (concat (map json_escape_char s))"

section \<open>USB manager: \<open>usb/__init__.py\<close>\<close>

subsection \<open>Python operations on the loaded values\<close>

text \<open>\<open>key in x\<close> for a \<open>str\<close> key.\<close>

definition py_contains :: "string \<Rightarrow> pyval \<Rightarrow> error + bool" where
  "py_contains key x =
     (case x of
        PDict kvs \<Rightarrow> Inr (key \<in> set (map fst kvs))
      | PList vs \<Rightarrow> Inr (PStr key \<in> set vs)
      | PStr s \<Rightarrow> Inr (contains s key)
      | _ \<Rightarrow> Inl TypeError)"

text \<open>\<open>x[key]\<close> for a \<open>str\<close> key.\<close>

definition py_getitem :: "pyval \<Rightarrow> string \<Rightarrow> error + pyval" where
  "py_getitem x key =
     (case x of
        PDict kvs \<Rightarrow> (case map_of kvs key of None \<Rightarrow> Inl KeyError | Some v \<Rightarrow> Inr v)
      | _ \<Rightarrow> Inl TypeError)"

text \<open>\<open>x.get(key, default)\<close>: only a \<open>dict\<close> has the method.\<close>

definition py_get :: "pyval \<Rightarrow> string \<Rightarrow> pyval \<Rightarrow> error + pyval" where
  "py_get x key dflt =
     (case x of
        PDict kvs \<Rightarrow> Inr (case map_of kvs key of None \<Rightarrow> dflt | Some v \<Rightarrow> v)
      | _ \<Rightarrow> Inl AttributeError)"

text \<open>The items \<open>for item in x\<close> visits; \<open>len(x)\<close> is defined for the same values.\<close>

definition py_iter :: "pyval \<Rightarrow> error + pyval list" where
  "py_iter x =
     (case x of
        PList vs \<Rightarrow> Inr vs
      | PStr s \<Rightarrow> Inr (map (\<lambda>c. PStr [c]) s)
      | PDict kvs \<Rightarrow> Inr (map (\<lambda>kv. PStr (fst kv)) kvs)
      | _ \<Rightarrow> Inl TypeError)"

text \<open>
  What the standard library computes outside this model: the current year, \<open>strptime\<close>,
  \<open>datetime.fromtimestamp(timestamp_ms / 1000)\<close> as a function of \<open>timestamp_ms\<close>, and
  \<open>int(x)\<close> for the float read from a literal. \<open>'dt\<close> is the type of a \<open>datetime\<close>.
\<close>

record 'dt pylib =
  lib_now_year :: nat
  lib_strptime :: "string \<Rightarrow> string \<Rightarrow> error + 'dt"
  lib_fromtimestamp :: "int \<Rightarrow> error + 'dt"
  lib_float_to_int :: "string \<Rightarrow> error + int"

text \<open>
  \<open>int(s)\<close> on a \<open>str\<close>: as on bytes, and the no-break space and the next-line control
  count as whitespace too.
\<close>

definition py_int_str :: "string \<Rightarrow> error + int" where
  "py_int_str s =
     py_int (map (\<lambda>c. if (of_char c :: nat) = 133 \<or> (of_char c :: nat) = 160 then CHR '' '' else c) s)"

definition py_int_val :: "'dt pylib \<Rightarrow> pyval \<Rightarrow> error + int" where
  "py_int_val lib x =
     (case x of
        PInt n \<Rightarrow> Inr n
      | PBool b \<Rightarrow> Inr (if b then 1 else 0)
      | PStr s \<Rightarrow> py_int_str s
      | PBytes b \<Rightarrow> py_int b
      | PFloat literal \<Rightarrow> lib_float_to_int lib literal
      | _ \<Rightarrow> Inl TypeError)"

text \<open>The decimal digits of a number, for \<^verbatim>\<open>f"{datetime.now().year}-..."\<close>.\<close>

function decimal :: "nat \<Rightarrow> string" where
  "decimal n = (if n < 10 then [char_of (48 + n)] else decimal (n div 10) @ [char_of (48 + n mod 10)])"
  by pat_completeness auto
termination
  by (relation "measure id") auto

subsection \<open>The records\<close>

record 'dt UsbEvent =
  ue_timestamp :: 'dt
  ue_details :: "(string \<times> pyval) list"

record 'dt UsbDeviceManager =
  dm_handler_properties :: pyval
  dm_events :: "'dt UsbEvent list"

definition new_UsbDeviceManager :: "'dt UsbDeviceManager" where
  "new_UsbDeviceManager = \<lparr>dm_handler_properties = PDict [], dm_events = []\<rparr>"

record 'dt UsbConnection =
  uc_device_address :: pyval
  uc_mode :: int
  uc_timestamp :: "'dt option"
  uc_manufacturer :: pyval
  uc_product :: pyval

text \<open>\<open>UsbConnection()\<close>: the declared defaults.\<close>

definition new_UsbConnection :: "'dt UsbConnection" where
  "new_UsbConnection =
     \<lparr>uc_device_address = PBytes '''', uc_mode = 0, uc_timestamp = None,
      uc_manufacturer = PBytes '''', uc_product = PBytes ''''\<rparr>"

record 'dt UsbHostManager =
  hm_num_connects :: pyval
  hm_connections :: "'dt UsbConnection list"

definition new_UsbHostManager :: "'dt UsbHostManager" where
  "new_UsbHostManager = \<lparr>hm_num_connects = PInt 0, hm_connections = []\<rparr>"

record 'dt UsbManagerData =
  md_restrictor_state :: "(string \<times> string) list"
  md_device_manager :: "'dt UsbDeviceManager option"
  md_host_manager :: "'dt UsbHostManager option"

definition new_UsbManagerData :: "'dt UsbManagerData" where
  "new_UsbManagerData = \<lparr>md_restrictor_state = [], md_device_manager = None, md_host_manager = None\<rparr>"

subsection \<open>\<open>UsbDeviceManager\<close>\<close>

text \<open>\<^verbatim>\<open>r'UEVENT:\s*\{(.*?)\}'\<close>\<close>

definition uevent_re :: re where
  "uevent_re = Seq [Lit ''UEVENT:'', Star (AnyOf [USpace]), Lit ''{'', Grp 1 (LStar Dot), Lit ''}'']"

text \<open>\<^verbatim>\<open>r'intent:\s*Intent\s*\{(.*?)\}'\<close>\<close>

definition intent_re :: re where
  "intent_re =
     Seq [Lit ''intent:'', Star (AnyOf [USpace]), Lit ''Intent'', Star (AnyOf [USpace]),
          Lit ''{'', Grp 1 (LStar Dot), Lit ''}'']"

text \<open>\<^verbatim>\<open>r'(\w+)=([^\s}]+)'\<close>\<close>

definition intent_pair_re :: re where
  "intent_pair_re =
     Seq [Grp 1 (Plus (AnyOf [UWord])), Lit ''='', Grp 2 (Plus (NoneOf [USpace, Ch CHR ''}'']))]"

fun uevent_pairs :: "string list \<Rightarrow> (string \<times> pyval) list \<Rightarrow> (string \<times> pyval) list" where
  "uevent_pairs [] properties = properties"
| "uevent_pairs (pair # pairs) properties =
     (if contains pair ''=''
      then (case split1 ''='' pair of
              [key, v] \<Rightarrow> uevent_pairs pairs (dict_set properties (ustrip key) (PStr (ustrip v)))
            | _ \<Rightarrow> uevent_pairs pairs properties)
      else uevent_pairs pairs properties)"

fun intent_pairs :: "match_obj list \<Rightarrow> (string \<times> pyval) list \<Rightarrow> (string \<times> pyval) list" where
  "intent_pairs [] properties = properties"
| "intent_pairs (m # ms) properties =
     intent_pairs ms (dict_set properties (grp m 1) (PStr (grp m 2)))"

definition parse_event_details :: "string \<Rightarrow> (string \<times> pyval) list" where
  "parse_event_details details =
     (case re_search uevent_re details of
        Some uevent_match \<Rightarrow>
          uevent_pairs (split_sep '','' (grp uevent_match 1)) [(''event_type'', PStr ''uevent'')]
      | None \<Rightarrow>
          (case re_search intent_re details of
             Some intent_match \<Rightarrow>
               (let content = ustrip (grp intent_match 1);
                    properties = intent_pairs (re_finditer intent_pair_re content)
                                   [(''event_type'', PStr ''intent'')]
                in if contains content ''(has extras)''
                   then dict_set properties ''extras'' (PBool True)
                   else properties)
           | None \<Rightarrow> []))"

text \<open>\<^verbatim>\<open>r'(\d{2}-\d{2}\s\d{2}:\d{2}:\d{2}:\d{3})\s(.*?)$'\<close>\<close>

definition usb_event_re :: re where
  "usb_event_re =
     Seq [Grp 1 (Seq [Times 2 (AnyOf [CDigit]), Lit ''-'', Times 2 (AnyOf [CDigit]),
                      One (AnyOf [USpace]),
                      Times 2 (AnyOf [CDigit]), Lit '':'', Times 2 (AnyOf [CDigit]), Lit '':'',
                      Times 2 (AnyOf [CDigit]), Lit '':'', Times 3 (AnyOf [CDigit])]),
          One (AnyOf [USpace]), Grp 2 (LStar Dot), Eol]"

text \<open>
  The loop of \<open>add_events\<close>. An exception leaves the events appended before it in place,
  so the manager is returned together with the exception, if any.
\<close>

fun add_events_loop ::
  "'dt pylib \<Rightarrow> pyval list \<Rightarrow> 'dt UsbDeviceManager \<Rightarrow> 'dt UsbDeviceManager \<times> error option" where
  "add_events_loop lib [] self = (self, None)"
| "add_events_loop lib (usb_event # list_events) self =
     (case usb_event of
        PStr s \<Rightarrow>
          (case re_match usb_event_re s of
             None \<Rightarrow> add_events_loop lib list_events self
           | Some ts_match \<Rightarrow>
               (case lib_strptime lib (decimal (lib_now_year lib) @ ''-'' @ grp ts_match 1)
                       ''%Y-%m-%d %H:%M:%S:%f'' of
                  Inl e \<Rightarrow> (self, Some e)
                | Inr ts \<Rightarrow>
                    add_events_loop lib list_events
                      (self\<lparr>dm_events := dm_events self @
                         [\<lparr>ue_timestamp = ts,
                           ue_details = parse_event_details (grp ts_match 2)\<rparr>]\<rparr>)))
      | _ \<Rightarrow> (self, Some TypeError))"

definition add_events ::
  "'dt pylib \<Rightarrow> 'dt UsbDeviceManager \<Rightarrow> pyval \<Rightarrow> 'dt UsbDeviceManager \<times> error option" where
  "add_events lib self list_events =
     (case py_iter list_events of
        Inl e \<Rightarrow> (self, Some e)
      | Inr items \<Rightarrow> if items = [] then (self, None) else add_events_loop lib items self)"

definition UsbDeviceManager_extract_data ::
  "'dt pylib \<Rightarrow> 'dt UsbDeviceManager \<Rightarrow> pyval \<Rightarrow> 'dt UsbDeviceManager \<times> error option" where
  "UsbDeviceManager_extract_data lib self parsed_json_data =
     (case py_contains ''handler'' parsed_json_data of
        Inl e \<Rightarrow> (self, Some e)
      | Inr has_handler \<Rightarrow>
          (case (if has_handler then py_getitem parsed_json_data ''handler''
                 else Inr (dm_handler_properties self)) of
             Inl e \<Rightarrow> (self, Some e)
           | Inr handler \<Rightarrow>
               (let self = self\<lparr>dm_handler_properties := handler\<rparr>
                in case py_contains ''USB Event'' parsed_json_data of
                     Inl e \<Rightarrow> (self, Some e)
                   | Inr False \<Rightarrow> (self, None)
                   | Inr True \<Rightarrow>
                       (case py_getitem parsed_json_data ''USB Event'' of
                          Inl e \<Rightarrow> (self, Some e)
                        | Inr list_events \<Rightarrow> add_events lib self list_events))))"

subsection \<open>\<open>UsbConnection\<close> and \<open>UsbHostManager\<close>\<close>

definition UsbConnection_parse ::
  "'dt pylib \<Rightarrow> 'dt UsbConnection \<Rightarrow> pyval \<Rightarrow> error + 'dt UsbConnection" where
  "UsbConnection_parse lib self props =
     (case py_get props ''device_address'' PNone of
        Inl e \<Rightarrow> Inl e
      | Inr device_address \<Rightarrow>
     (case py_get props ''mode'' (PInt (- 1)) of
        Inl e \<Rightarrow> Inl e
      | Inr mode_value \<Rightarrow>
     (case py_int_val lib mode_value of
        Inl e \<Rightarrow> Inl e
      | Inr mode \<Rightarrow>
     (case py_get props ''timestamp'' (PInt 0) of
        Inl e \<Rightarrow> Inl e
      | Inr timestamp_value \<Rightarrow>
     (case py_int_val lib timestamp_value of
        Inl e \<Rightarrow> Inl e
      | Inr timestamp_ms \<Rightarrow>
     (case (if timestamp_ms \<noteq> 0
            then (case lib_fromtimestamp lib timestamp_ms of
                    Inl e \<Rightarrow> Inl e
                  | Inr dt \<Rightarrow> Inr (Some dt))
            else Inr None) of
        Inl e \<Rightarrow> Inl e
      | Inr timestamp \<Rightarrow>
     (case py_get props ''manufacturer'' PNone of
        Inl e \<Rightarrow> Inl e
      | Inr manufacturer \<Rightarrow>
     (case py_get props ''product'' PNone of
        Inl e \<Rightarrow> Inl e
      | Inr product \<Rightarrow>
          Inr (self\<lparr>uc_device_address := device_address, uc_mode := mode,
                    uc_timestamp := timestamp, uc_manufacturer := manufacturer,
                    uc_product := product\<rparr>)))))))))"

fun connections_loop ::
  "'dt pylib \<Rightarrow> pyval list \<Rightarrow> 'dt UsbHostManager \<Rightarrow> 'dt UsbHostManager \<times> error option" where
  "connections_loop lib [] self = (self, None)"
| "connections_loop lib (connection # connections) self =
     (case UsbConnection_parse lib new_UsbConnection connection of
        Inl e \<Rightarrow> (self, Some e)
      | Inr uc \<Rightarrow>
          connections_loop lib connections (self\<lparr>hm_connections := hm_connections self @ [uc]\<rparr>))"

definition UsbHostManager_extract_data ::
  "'dt pylib \<Rightarrow> 'dt UsbHostManager \<Rightarrow> pyval \<Rightarrow> 'dt UsbHostManager \<times> error option" where
  "UsbHostManager_extract_data lib self parsed_json_data =
     (case py_get parsed_json_data ''num_connects'' PNone of
        Inl e \<Rightarrow> (self, Some e)
      | Inr num_connects \<Rightarrow>
          (let self = self\<lparr>hm_num_connects := num_connects\<rparr>
           in case py_contains ''connections'' parsed_json_data of
                Inl e \<Rightarrow> (self, Some e)
              | Inr False \<Rightarrow> (self, None)
              | Inr True \<Rightarrow>
                  (case py_getitem parsed_json_data ''connections'' of
                     Inl e \<Rightarrow> (self, Some e)
                   | Inr connections \<Rightarrow>
                       (case py_iter connections of
                          Inl e \<Rightarrow> (self, Some e)
                        | Inr items \<Rightarrow> connections_loop lib items self))))"

subsection \<open>\<open>clean_and_load_json\<close>\<close>

text \<open>\<^verbatim>\<open>true|false|null|-?\d+\.?\d*\<close> and its last alternative, the numeric literal.\<close>

definition numeric_re :: re where
  "numeric_re = Seq [Opt (Lit ''-''), Plus (AnyOf [CDigit]), Opt (Lit ''.''), Star (AnyOf [CDigit])]"

definition keyword_or_numeric_re :: re where
  "keyword_or_numeric_re = Alt (Lit ''true'') (Alt (Lit ''false'') (Alt (Lit ''null'') numeric_re))"

text \<open>\<^verbatim>\<open>[\w\s-]+\<close>, the key of an assignment.\<close>

definition key_re :: re where
  "key_re = Plus (AnyOf [UWord, USpace, Ch CHR ''-''])"

text \<open>\<open>re.fullmatch\<close>: a match from the start that ends at the end of the text.\<close>

definition re_fullmatch :: "re \<Rightarrow> string \<Rightarrow> match_obj option" where
  "re_fullmatch r text = re_match (Seq [r, EndZ]) text"

text \<open>The replacement function of step 3.\<close>

definition quote_values_if_string :: "match_obj \<Rightarrow> string" where
  "quote_values_if_string m =
     (let key = ustrip (grp m 1);
          v = ustrip (grp m 2)
      in if v = ''true'' \<or> v = ''false'' \<or> v = ''null'' \<or> re_fullmatch numeric_re v \<noteq> None
         then quoted key @ '': '' @ v
         else quoted key @ '': '' @ quoted (replace [CHR 0x22] [CHR 0x5C, CHR 0x22] v))"

text \<open>Step 1, \<^verbatim>\<open>re.sub(r'}\s*{', '}, {', text)\<close>\<close>

definition clean_step1 :: "string \<Rightarrow> string" where
  "clean_step1 text =
     re_sub (Seq [Lit ''}'', Star (AnyOf [USpace]), Lit ''{'']) (\<lambda>m. ''}, {'') text"

text \<open>
  Step 2,
  \<^verbatim>\<open>re.sub(r'(true|false|null|-?\d+\.?\d*)\s*\n\s*(true|false|null|-?\d+\.?\d*)', r'\1,\n\2', text)\<close>
\<close>

definition clean_step2 :: "string \<Rightarrow> string" where
  "clean_step2 text =
     re_sub (Seq [Grp 1 keyword_or_numeric_re, Star (AnyOf [USpace]), Lit ''\<newline>'',
                  Star (AnyOf [USpace]), Grp 2 keyword_or_numeric_re])
            (\<lambda>m. grp m 1 @ '',\<newline>'' @ grp m 2) text"

text \<open>
  Step 3,
  \<^verbatim>\<open>re.sub(r'^\s*([\w\s-]+)\s*=\s*([^{[]+?)\s*$', quote_values_if_string, text, flags=re.MULTILINE)\<close>
\<close>

definition clean_step3 :: "string \<Rightarrow> string" where
  "clean_step3 text =
     re_sub (Seq [BolM, Star (AnyOf [USpace]), Grp 1 key_re, Star (AnyOf [USpace]), Lit ''='',
                  Star (AnyOf [USpace]), Grp 2 (LPlus (NoneOf [Ch CHR ''{'', Ch CHR ''[''])),
                  Star (AnyOf [USpace]), EolM])
            quote_values_if_string text"

text \<open>
  Step 4,
  \<^verbatim>\<open>re.sub(r'^\s*([\w\s-]+)\s*=\s*(true|false|null|-?\d+\.?\d*)\s*$', r'"\1": \2', text, flags=re.MULTILINE)\<close>
\<close>

definition clean_step4 :: "string \<Rightarrow> string" where
  "clean_step4 text =
     re_sub (Seq [BolM, Star (AnyOf [USpace]), Grp 1 key_re, Star (AnyOf [USpace]), Lit ''='',
                  Star (AnyOf [USpace]), Grp 2 keyword_or_numeric_re, Star (AnyOf [USpace]), EolM])
            (\<lambda>m. quoted (grp m 1) @ '': '' @ grp m 2) text"

text \<open>
  Step 5, \<^verbatim>\<open>re.sub(r'^\s*([\w\s-]+)\s*=\s*({|\[)', r'"\1": \2', text, flags=re.MULTILINE)\<close>
\<close>

definition clean_step5 :: "string \<Rightarrow> string" where
  "clean_step5 text =
     re_sub (Seq [BolM, Star (AnyOf [USpace]), Grp 1 key_re, Star (AnyOf [USpace]), Lit ''='',
                  Star (AnyOf [USpace]), Grp 2 (Alt (Lit ''{'') (Lit ''[''))])
            (\<lambda>m. quoted (grp m 1) @ '': '' @ grp m 2) text"

text \<open>
  Step 6, \<^verbatim>\<open>re.sub(r'(["}\]]|true|false|null|-?\d+\.?\d*)\s*\n\s*"', r'\1,\n"', text)\<close>
\<close>

definition clean_step6 :: "string \<Rightarrow> string" where
  "clean_step6 text =
     re_sub (Seq [Grp 1 (Alt (One (AnyOf [Ch (CHR 0x22), Ch CHR ''}'', Ch CHR '']'']))
                             keyword_or_numeric_re),
                  Star (AnyOf [USpace]), Lit ''\<newline>'', Star (AnyOf [USpace]), Lit [CHR 0x22]])
            (\<lambda>m. grp m 1 @ '',\<newline>'' @ [CHR 0x22]) text"

text \<open>Step 7, \<^verbatim>\<open>re.sub(r',\s*([}\]])', r'\1', text)\<close>\<close>

definition clean_step7 :: "string \<Rightarrow> string" where
  "clean_step7 text =
     re_sub (Seq [Lit '','', Star (AnyOf [USpace]), Grp 1 (One (AnyOf [Ch CHR ''}'', Ch CHR '']'']))])
            (\<lambda>m. grp m 1) text"

text \<open>
  The text handed to \<open>json.loads\<close>, and the function. A \<open>JSONDecodeError\<close> is raised again
  as a \<open>ValueError\<close>.
\<close>

definition clean_json_string :: "string \<Rightarrow> string" where
  "clean_json_string text =
     ''{'' @ clean_step7 (clean_step6 (clean_step5 (clean_step4 (clean_step3
              (clean_step2 (clean_step1 text)))))) @ ''}''"

definition clean_and_load_json :: "string \<Rightarrow> error + pyval" where
  "clean_and_load_json text =
     (case json_loads (clean_json_string text) of
        Inl e \<Rightarrow> Inl e
      | Inr v \<Rightarrow> Inr v)"

subsection \<open>\<open>parse_usb_manager_state\<close>\<close>

text \<open>
  \<open>b.decode('utf-8')\<close>, for bytes that decode to code points below 256. The lead bytes
  \<open>0xC2\<close> and \<open>0xC3\<close> open the two-byte sequences of the code points 128 to 255. A lead
  byte from \<open>0xC4\<close> to \<open>0xF4\<close> opens a sequence for a code point from 256 on, which a
  \<open>string\<close> of 8-bit characters cannot hold: the result is \<open>NotLatin1\<close>, the text is outside
  the model. The other bytes from 128 on (a continuation byte with no lead byte, \<open>0xC0\<close>,
  \<open>0xC1\<close>, \<open>0xF5\<close> and above) are where the code raises \<open>UnicodeDecodeError\<close>.
\<close>

fun decode_utf8 :: "bytes \<Rightarrow> error + string" where
  "decode_utf8 [] = Inr []"
| "decode_utf8 (c # cs) =
     (let n = (of_char c :: nat)
      in if n < 128 then (case decode_utf8 cs of Inl e \<Rightarrow> Inl e | Inr s \<Rightarrow> Inr (c # s))
         else if n = 194 \<or> n = 195 then
           (case cs of
              [] \<Rightarrow> Inl UnicodeDecodeError
            | d # ds \<Rightarrow>
                if 128 \<le> (of_char d :: nat) \<and> (of_char d :: nat) < 192
                then (case decode_utf8 ds of
                        Inl e \<Rightarrow> Inl e
                      | Inr s \<Rightarrow> Inr (char_of ((n - 192) * 64 + ((of_char d :: nat) - 128)) # s))
                else Inl UnicodeDecodeError)
         else if 196 \<le> n \<and> n \<le> 244 then Inl NotLatin1
         else Inl UnicodeDecodeError)"

text \<open>\<^verbatim>\<open>rb'USB MANAGER STATE \(dumpsys usb\):\n(.*?)(?=\n\n\n|\Z)'\<close> with \<open>re.DOTALL\<close>\<close>

definition usb_section_re :: re where
  "usb_section_re =
     Seq [Lit ''USB MANAGER STATE (dumpsys usb):\<newline>'', Grp 1 (LStar DotAll),
          Ahead (Alt (Lit ''\<newline>\<newline>\<newline>'') EndZ)]"

text \<open>\<^verbatim>\<open>r'(USB Event=\[\n(.*?)\n\s+\])'\<close> with \<open>re.DOTALL\<close>\<close>

definition event_log_re :: re where
  "event_log_re =
     Grp 1 (Seq [Lit ''USB Event=[\<newline>'', Grp 2 (LStar DotAll), Lit ''\<newline>'',
                 Plus (AnyOf [USpace]), Lit '']''])"

text \<open>\<^verbatim>\<open>r'USB Host Restrictor State:\n(.*?)(?=\n[A-Z])'\<close> with \<open>re.DOTALL\<close>\<close>

definition restrictor_re :: re where
  "restrictor_re =
     Seq [Lit ''USB Host Restrictor State:\<newline>'', Grp 1 (LStar DotAll),
          Ahead (Seq [Lit ''\<newline>'', One (AnyOf [Rng CHR ''A'' CHR ''Z''])])]"

text \<open>\<^verbatim>\<open>r'^\s*{'\<close> with \<open>re.MULTILINE\<close>\<close>

definition brace_start_re :: re where
  "brace_start_re = Seq [BolM, Star (AnyOf [USpace]), Lit ''{'']"

text \<open>The event log is rewritten into a JSON array of strings and put back into the block.\<close>

definition repair_event_log :: "string \<Rightarrow> string" where
  "repair_event_log block =
     (case re_search event_log_re block of
        None \<Rightarrow> block
      | Some event_log_match \<Rightarrow>
          (let full_match_text = grp event_log_match 1;
               event_log_content = ustrip (grp event_log_match 2);
               event_lines = split_sep ''\<newline>'' event_log_content;
               json_escaped_lines = map (\<lambda>line. json_dumps_str (ustrip line)) event_lines;
               valid_json_events =
                 quoted ''USB Event'' @ '': ['' @ join '', '' json_escaped_lines @ '']''
           in replace full_match_text valid_json_events block))"

fun restrictor_lines :: "string list \<Rightarrow> (string \<times> string) list \<Rightarrow> (string \<times> string) list" where
  "restrictor_lines [] restrictor_state = restrictor_state"
| "restrictor_lines (line # lines) restrictor_state =
     (if contains line '':''
      then (case split1 '':'' line of
              [key, val] \<Rightarrow> restrictor_lines lines (dict_set restrictor_state (ustrip key) (ustrip val))
            | _ \<Rightarrow> restrictor_lines lines restrictor_state)
      else restrictor_lines lines restrictor_state)"

definition restrictor_state_of :: "string \<Rightarrow> (string \<times> string) list" where
  "restrictor_state_of block =
     (case re_search restrictor_re block of
        None \<Rightarrow> []
      | Some restrictor_match \<Rightarrow>
          restrictor_lines (split_sep ''\<newline>'' (ustrip (grp restrictor_match 1))) [])"

text \<open>
  The scan for the matching brace,
  \<^verbatim>\<open>for i, char in enumerate(block[start_index:]):\<close>
  with the offset \<open>i\<close> and the \<open>brace_level\<close> so far; the result is the \<open>i\<close> at which the
  loop breaks, \<open>None\<close> when it runs to the end.
\<close>

fun brace_scan :: "string \<Rightarrow> nat \<Rightarrow> int \<Rightarrow> nat option" where
  "brace_scan [] i brace_level = None"
| "brace_scan (char # chars) i brace_level =
     (let brace_level = (if char = CHR ''{'' then brace_level + 1
                         else if char = CHR ''}'' then brace_level - 1
                         else brace_level)
      in if brace_level = 0 then Some i else brace_scan chars (Suc i) brace_level)"

text \<open>\<open>(start_index, end_index)\<close>, when the block has a start and the scan finds an end.\<close>

definition brace_span :: "string \<Rightarrow> (nat \<times> nat) option" where
  "brace_span block =
     (case re_search brace_start_re block of
        None \<Rightarrow> None
      | Some start_match \<Rightarrow>
          (let start_index = m_start start_match
           in case brace_scan (drop start_index block) 0 0 of
                None \<Rightarrow> None
              | Some i \<Rightarrow> Some (start_index, start_index + i)))"

text \<open>\<open>block[start_index + 1 : end_index]\<close>\<close>

definition json_like_content :: "string \<Rightarrow> string option" where
  "json_like_content block =
     (case brace_span block of
        None \<Rightarrow> None
      | Some (start_index, end_index) \<Rightarrow>
          Some (take (end_index - (start_index + 1)) (drop (start_index + 1) block)))"

text \<open>
  The body of the \<open>try\<close>: the data as far as it got, and the exception that stopped it.
\<close>

definition usb_load ::
  "'dt pylib \<Rightarrow> 'dt UsbManagerData \<Rightarrow> string \<Rightarrow> 'dt UsbManagerData \<times> error option" where
  "usb_load lib data json_like =
     (case clean_and_load_json json_like of
        Inl e \<Rightarrow> (data, Some e)
      | Inr parsed_json_data \<Rightarrow>
          (case py_contains ''device_manager'' parsed_json_data of
             Inl e \<Rightarrow> (data, Some e)
           | Inr has_device_manager \<Rightarrow>
               (case (if has_device_manager
                      then (case py_getitem parsed_json_data ''device_manager'' of
                              Inl e \<Rightarrow> (data, Some e)
                            | Inr x \<Rightarrow>
                                (case UsbDeviceManager_extract_data lib new_UsbDeviceManager x of
                                   (dm, err) \<Rightarrow> (data\<lparr>md_device_manager := Some dm\<rparr>, err)))
                      else (data, None)) of
                  (data, Some e) \<Rightarrow> (data, Some e)
                | (data, None) \<Rightarrow>
                    (case py_contains ''host_manager'' parsed_json_data of
                       Inl e \<Rightarrow> (data, Some e)
                     | Inr False \<Rightarrow> (data, None)
                     | Inr True \<Rightarrow>
                         (case py_getitem parsed_json_data ''host_manager'' of
                            Inl e \<Rightarrow> (data, Some e)
                          | Inr x \<Rightarrow>
                              (case UsbHostManager_extract_data lib new_UsbHostManager x of
                                 (hm, err) \<Rightarrow> (data\<lparr>md_host_manager := Some hm\<rparr>, err)))))))"

text \<open>
  A \<open>ValueError\<close> from the \<open>try\<close> is logged as a warning and the data built so far is
  returned; any other exception leaves the function.
\<close>

definition parse_usb_manager_state ::
  "'dt pylib \<Rightarrow> RawData \<Rightarrow> log_record list \<times> (error + 'dt UsbManagerData option)" where
  "parse_usb_manager_state lib dumpstate_content =
     (let info = Info (''Parsing '' @ quoted ''USB MANAGER STATE'' @ '' section...'')
      in case re_search usb_section_re (rd_raw dumpstate_content) of
           None \<Rightarrow> ([info], Inr None)
         | Some m \<Rightarrow>
             (case decode_utf8 (grp m 1) of
                Inl e \<Rightarrow> ([info], Inl e)
              | Inr decoded \<Rightarrow>
                  (let block = ustrip decoded
                   in if block = [] then ([info], Inr None)
                      else
                        (let block = repair_event_log block;
                             data = new_UsbManagerData\<lparr>md_restrictor_state := restrictor_state_of block\<rparr>
                         in case json_like_content block of
                              None \<Rightarrow> ([info], Inr (Some data))
                            | Some json_like \<Rightarrow>
                                (case usb_load lib data json_like of
                                   (data, None) \<Rightarrow> ([info], Inr (Some data))
                                 | (data, Some e) \<Rightarrow>
                                     if e = ValueError
                                     then ([info, Warning ValueError], Inr (Some data))
                                     else ([info], Inl e))))))"

subsection \<open>What the repair does to scalar values\<close>

text \<open>The repair on the blocks of the specification's scenarios.\<close>

lemma clean_and_load_json_examples:
  "clean_and_load_json ''mode=1\<newline>timestamp=1000'' =
     Inr (PDict [(''mode'', PInt 1), (''timestamp'', PInt 1000)])"
  "clean_and_load_json ''a = 1\<newline>b = two words\<newline>c = true'' =
     Inr (PDict [(''a'', PInt 1), (''b'', PStr ''two words''), (''c'', PBool True)])"
  by code_simp+

text \<open>
  C4. The claim: every well-formed block of \<open>key = value\<close> lines loads, and a value that is
  neither numeric nor \<open>true\<close>/\<open>false\<close> comes back as exactly the original string, also when
  it contains double quotes, \<open>[\<close> or \<open>{\<close>. The code does so for a value with double quotes,
  but:
  \<^item> step 3 takes the value from \<^verbatim>\<open>[^{[]+?\<close>, so a line whose value contains \<open>[\<close> or \<open>{\<close> is
    not rewritten and the block fails to load (\<open>ValueError\<close>);
  \<^item> step 7 also strips a comma before \<open>]\<close> or \<open>}\<close> inside a quoted value: \<open>x,]\<close> comes back
    as \<open>x]\<close>;
  \<^item> the numeric test \<^verbatim>\<open>-?\d+\.?\d*\<close> accepts \<open>1.\<close>, which is left unquoted and is not a
    JSON number (\<open>ValueError\<close>);
  \<^item> only the double quote is escaped, so the backslash of \<open>C:\new\<close> becomes an escape of
    the JSON string: the value comes back with a newline in place of \<open>\n\<close>.
\<close>

theorem clean_and_load_json_not_round_trip:
  "clean_and_load_json (''k = say '' @ quoted ''hi'') = Inr (PDict [(''k'', PStr (''say '' @ quoted ''hi''))]) \<and>
   clean_and_load_json ''name = a[b'' = Inl ValueError \<and>
   clean_and_load_json ''name = a{b'' = Inl ValueError \<and>
   clean_and_load_json ''path = x,]'' = Inr (PDict [(''path'', PStr ''x]'')]) \<and>
   clean_and_load_json ''ver = 1.'' = Inl ValueError \<and>
   clean_and_load_json (''p = C:'' @ [CHR 0x5C] @ ''new'') = Inr (PDict [(''p'', PStr ''C:\<newline>ew'')])"
  by code_simp

text \<open>
  An instance of the library, for evaluating the parsers on concrete reports: a \<open>datetime\<close>
  is kept as the text or the milliseconds it was made from, and converting a float is an
  error (the reports below contain none).
\<close>

definition sample_lib :: "string pylib" where
  "sample_lib =
     \<lparr>lib_now_year = 2026,
      lib_strptime = (\<lambda>s fmt. Inr s),
      lib_fromtimestamp = (\<lambda>ms. Inr (decimal (nat ms))),
      lib_float_to_int = (\<lambda>literal. Inl ValueError)\<rparr>"

subsection \<open>Fields of a connection whose keys are missing\<close>

text \<open>
  C7, as stated, fails: for the properties \<open>{}\<close>, \<open>UsbConnection.parse\<close> does not leave the
  declared defaults (mode \<open>0\<close>, \<open>b''\<close>) but stores the sentinel \<open>-1\<close> and \<open>None\<close>.
\<close>

theorem UsbConnection_parse_defaults_counterexample:
  "UsbConnection_parse sample_lib new_UsbConnection (PDict []) =
     Inr \<lparr>uc_device_address = PNone, uc_mode = - 1, uc_timestamp = None,
          uc_manufacturer = PNone, uc_product = PNone\<rparr> \<and>
   UsbConnection_parse sample_lib new_UsbConnection (PDict []) \<noteq> Inr new_UsbConnection"
  by (simp add: UsbConnection_parse_def py_get_def py_int_val_def new_UsbConnection_def)

text \<open>
  C7, amended. For every properties dictionary, after \<open>UsbConnection.parse\<close> returns: a
  missing \<open>mode\<close> key gives mode \<open>-1\<close>, a missing \<open>device_address\<close>, \<open>manufacturer\<close> or
  \<open>product\<close> key gives \<open>None\<close> for that field, and a missing \<open>timestamp\<close> key gives the
  timestamp \<open>None\<close>. When all five keys are missing the call returns, with exactly these
  values.
\<close>

theorem UsbConnection_parse_missing_keys:
  "(UsbConnection_parse lib self (PDict kvs) = Inr uc \<longrightarrow>
      (map_of kvs ''mode'' = None \<longrightarrow> uc_mode uc = - 1) \<and>
      (map_of kvs ''device_address'' = None \<longrightarrow> uc_device_address uc = PNone) \<and>
      (map_of kvs ''manufacturer'' = None \<longrightarrow> uc_manufacturer uc = PNone) \<and>
      (map_of kvs ''product'' = None \<longrightarrow> uc_product uc = PNone) \<and>
      (map_of kvs ''timestamp'' = None \<longrightarrow> uc_timestamp uc = None)) \<and>
   (map_of kvs ''mode'' = None \<and> map_of kvs ''device_address'' = None \<and>
    map_of kvs ''manufacturer'' = None \<and> map_of kvs ''product'' = None \<and>
    map_of kvs ''timestamp'' = None \<longrightarrow>
      UsbConnection_parse lib self (PDict kvs) =
        Inr (self\<lparr>uc_device_address := PNone, uc_mode := - 1, uc_timestamp := None,
                  uc_manufacturer := PNone, uc_product := PNone\<rparr>))"
  by (auto simp: UsbConnection_parse_def py_get_def py_int_val_def
           split: sum.splits option.splits if_splits)

theorem UsbConnection_parse_missing_keys_witness:
  "map_of [(''serial'', PStr ''x'')] ''mode'' = None \<and>
   map_of [(''serial'', PStr ''x'')] ''device_address'' = None \<and>
   map_of [(''serial'', PStr ''x'')] ''manufacturer'' = None \<and>
   map_of [(''serial'', PStr ''x'')] ''product'' = None \<and>
   map_of [(''serial'', PStr ''x'')] ''timestamp'' = None \<and>
   UsbConnection_parse sample_lib new_UsbConnection (PDict [(''serial'', PStr ''x'')]) =
     Inr \<lparr>uc_device_address = PNone, uc_mode = - 1, uc_timestamp = None,
          uc_manufacturer = PNone, uc_product = PNone\<rparr>"
  using UsbConnection_parse_missing_keys
          [of sample_lib new_UsbConnection "[(''serial'', PStr ''x'')]"
              "\<lparr>uc_device_address = PNone, uc_mode = - 1, uc_timestamp = None,
                uc_manufacturer = PNone, uc_product = PNone\<rparr>"]
  by (simp add: new_UsbConnection_def)

subsection \<open>The scan for the matching brace\<close>

text \<open>
  A report whose USB block opens its brace on an indented line. In the block (the text after
  the header line, stripped) the opening brace is at index 8 and the brace that closes it at
  index 52.
\<close>

definition usb_report :: bytes where
  "usb_report =
     ''USB MANAGER STATE (dumpsys usb):\<newline>state\<newline>  {\<newline>  host_manager={\<newline>    num_connects=1\<newline>  }\<newline>  }\<newline>''"

definition usb_block :: string where
  "usb_block = ''state\<newline>  {\<newline>  host_manager={\<newline>    num_connects=1\<newline>  }\<newline>  }''"

text \<open>
  C3. The claim: the scan ends at the brace that closes the first line-initial opening
  brace, whether or not whitespace precedes that brace, and the body is the text between
  the two. The code starts the scan at \<open>start_match.start()\<close>, the start of the match of
  \<^verbatim>\<open>^\s*{\<close>, which is the first character of the whitespace before the brace: the depth is
  still \<open>0\<close> after that character and the scan stops there. For the block above the span is
  \<open>(6, 6)\<close> and the body is empty, where the claim gives the end index 52 and a body that
  loads as the host manager; the host manager of the report is lost without a diagnostic.
\<close>

theorem brace_scan_stops_at_leading_whitespace:
  "brace_span usb_block = Some (6, 6) \<and>
   json_like_content usb_block = Some [] \<and>
   usb_block ! 8 = CHR ''{'' \<and> usb_block ! 52 = CHR ''}'' \<and>
   brace_scan (drop 8 usb_block) 0 0 = Some 44 \<and>
   clean_and_load_json (take (52 - 9) (drop 9 usb_block)) =
     Inr (PDict [(''host_manager'', PDict [(''num_connects'', PInt 1)])]) \<and>
   parse_usb_manager_state sample_lib (mk_RawData usb_report) =
     ([Info (''Parsing '' @ quoted ''USB MANAGER STATE'' @ '' section...'')],
      Inr (Some \<lparr>md_restrictor_state = [], md_device_manager = None, md_host_manager = None\<rparr>))"
  by code_simp

section \<open>A section that is absent\<close>




section \<open>Account service: \<open>services/account.py\<close>\<close>





text \<open>\<open>xs[1]\<close>\<close>

definition second :: "'a list \<Rightarrow> error + 'a" where
  "second xs = (case xs of _ # x # _ \<Rightarrow> Inr x | _ \<Rightarrow> Inl IndexError)"

text \<open>\<open>[int(p) for p in ps]\<close>\<close>

fun int_all :: "bytes list \<Rightarrow> error + int list" where
  "int_all [] = Inr []"
| "int_all (p # ps) =
     (case py_int p of
        Inl e \<Rightarrow> Inl e
      | Inr n \<Rightarrow> (case int_all ps of Inl e \<Rightarrow> Inl e | Inr ns \<Rightarrow> Inr (n # ns)))"

text \<open>\<open>int(line.split(b':')[1].strip())\<close> and \<open>line.split(b':')[1].strip()\<close>\<close>

definition after_colon :: "bytes \<Rightarrow> error + bytes" where
  "after_colon line =
     (case second (split_sep '':'' line) of Inl e \<Rightarrow> Inl e | Inr s \<Rightarrow> Inr (strip s))"

definition int_after_colon :: "bytes \<Rightarrow> error + int" where
  "int_after_colon line = (case after_colon line of Inl e \<Rightarrow> Inl e | Inr s \<Rightarrow> py_int s)"

text \<open>\<open>[int(p) for p in line.split(b':')[1].strip().split(b', ')]\<close>\<close>

definition pids_after_colon :: "bytes \<Rightarrow> error + int list" where
  "pids_after_colon line =
     (case after_colon line of Inl e \<Rightarrow> Inl e | Inr pids_str \<Rightarrow> int_all (split_sep '', '' pids_str))"














section \<open>ANR traces: \<open>vm_traces/__init__.py\<close>\<close>

record StackFrame =
  sf_frame_type :: bytes
  sf_method :: bytes
  sf_file_loc :: bytes
  sf_line_number :: int
  sf_address :: bytes
  sf_library :: bytes
  sf_details :: bytes

definition new_StackFrame :: StackFrame where
  "new_StackFrame =
     \<lparr>sf_frame_type = '''', sf_method = '''', sf_file_loc = '''', sf_line_number = 0,
      sf_address = '''', sf_library = '''', sf_details = ''''\<rparr>"

text \<open>\<^verbatim>\<open>rb'#\d{2}\s+pc\s+([0-9a-fA-F]+)\s+([^\(]+)\s*\((.*?)\)'\<close>\<close>

definition native_frame_re :: re where
  "native_frame_re =
     Seq [Lit ''#'', Times 2 (AnyOf [CDigit]), Plus (AnyOf [CSpace]), Lit ''pc'', Plus (AnyOf [CSpace]),
          Grp 1 (Plus (AnyOf [Rng CHR ''0'' CHR ''9'', Rng CHR ''a'' CHR ''f'', Rng CHR ''A'' CHR ''F''])),
          Plus (AnyOf [CSpace]), Grp 2 (Plus (NoneOf [Ch CHR ''(''])), Star (AnyOf [CSpace]),
          Lit ''('', Grp 3 (LStar Dot), Lit '')'']"

definition parse_native_frame :: "StackFrame \<Rightarrow> bytes \<Rightarrow> StackFrame" where
  "parse_native_frame self raw =
     (case re_search native_frame_re raw of
        None \<Rightarrow> self
      | Some m \<Rightarrow>
          self\<lparr>sf_address := grp m 1, sf_library := strip (grp m 2), sf_details := strip (grp m 3)\<rparr>)"

text \<open>\<^verbatim>\<open>rb'\(([^:]+):?(\d*)\)'\<close>\<close>

definition managed_loc_re :: re where
  "managed_loc_re =
     Seq [Lit ''('', Grp 1 (Plus (NoneOf [Ch CHR '':''])), Opt (Lit '':''),
          Grp 2 (Star (AnyOf [CDigit])), Lit '')'']"

definition parse_managed_frame :: "StackFrame \<Rightarrow> bytes \<Rightarrow> error + StackFrame" where
  "parse_managed_frame self raw =
     (let self = self\<lparr>sf_method := replace ''at '' '''' raw\<rparr>
      in case re_search managed_loc_re (sf_method self) of
           None \<Rightarrow> Inr self
         | Some m \<Rightarrow>
             (let self = self\<lparr>sf_file_loc := grp m 1\<rparr>
              in if grp m 2 \<noteq> []
                 then (case py_int (grp m 2) of
                         Inl e \<Rightarrow> Inl e
                       | Inr n \<Rightarrow> Inr (self\<lparr>sf_line_number := n\<rparr>))
                 else Inr self))"

definition StackFrame_parse :: "StackFrame \<Rightarrow> bytes \<Rightarrow> bytes \<Rightarrow> error + StackFrame" where
  "StackFrame_parse self line frame_type =
     (let self = self\<lparr>sf_frame_type := frame_type\<rparr>
      in if frame_type = ''native'' then Inr (parse_native_frame self (strip line))
         else parse_managed_frame self (strip line))"


















text \<open>
  The native frame of a line:
  \<^verbatim>\<open>sf.parse(lines[j].replace(b'native:', b'').strip(), b'native')\<close>
\<close>

definition native_frame :: "bytes \<Rightarrow> StackFrame" where
  "native_frame line =
     parse_native_frame (new_StackFrame\<lparr>sf_frame_type := ''native''\<rparr>)
       (strip (strip (replace ''native:'' '''' line)))"












section \<open>Package service: \<open>package/__init__.py\<close>\<close>

record 'dt Package =
  pk_name :: bytes
  pk_app_id :: bytes
  pk_version_code :: int
  pk_version_name :: bytes
  pk_data_dir :: bytes
  pk_flags :: "bytes list"
  pk_private_flags :: "bytes list"
  pk_users :: "(int \<times> (string \<times> bytes) list) list"
  pk_runtime_permissions :: "(bytes \<times> pyval) list"
  pk_install_permissions :: "(bytes \<times> pyval) list"
  pk_declared_permissions :: "(bytes \<times> pyval) list"
  pk_first_install_time :: bytes
  pk_originating_package_name :: bytes
  pk_initiating_package_name :: bytes
  pk_time_stamp :: "'dt option"
  pk_last_update_time :: "'dt option"
  pk_installer_package_uid :: int

definition new_Package :: "'dt Package" where
  "new_Package =
     \<lparr>pk_name = '''', pk_app_id = '''', pk_version_code = 0, pk_version_name = '''',
      pk_data_dir = '''', pk_flags = [], pk_private_flags = [], pk_users = [],
      pk_runtime_permissions = [], pk_install_permissions = [], pk_declared_permissions = [],
      pk_first_install_time = '''', pk_originating_package_name = '''',
      pk_initiating_package_name = '''', pk_time_stamp = None, pk_last_update_time = None,
      pk_installer_package_uid = 0\<rparr>"

text \<open>The fields after \<open>packages\<close> are declared and never assigned by the parser.\<close>

record 'dt PackageInfo =
  pi_service_pid :: int
  pi_threads_in_use :: bytes
  pi_client_pids :: "int list"
  pi_database_versions :: "(bytes \<times> bytes) list"
  pi_known_packages :: "(bytes \<times> bytes) list"
  pi_verifiers :: "bytes list"
  pi_domain_verifier :: bytes
  pi_libraries :: "(bytes \<times> bytes) list"
  pi_features :: "bytes list"
  pi_packages :: "'dt Package list"
  pi_permissions :: pyval
  pi_shared_users :: pyval
  pi_activity_resolver :: pyval
  pi_receiver_resolver :: pyval
  pi_service_resolver :: pyval
  pi_provider_resolver :: pyval
  pi_permission_trees :: pyval
  pi_package_changes :: pyval
  pi_install_sessions :: pyval
  pi_apex_session_state :: pyval

definition new_PackageInfo :: "'dt PackageInfo" where
  "new_PackageInfo =
     \<lparr>pi_service_pid = 0, pi_threads_in_use = '''', pi_client_pids = [],
      pi_database_versions = [], pi_known_packages = [], pi_verifiers = [],
      pi_domain_verifier = '''', pi_libraries = [], pi_features = [], pi_packages = [],
      pi_permissions = PList [], pi_shared_users = PList [], pi_activity_resolver = PDict [],
      pi_receiver_resolver = PDict [], pi_service_resolver = PDict [],
      pi_provider_resolver = PDict [], pi_permission_trees = PList [],
      pi_package_changes = PDict [], pi_install_sessions = PList [],
      pi_apex_session_state = PDict []\<rparr>"

text \<open>The patterns of the parser.\<close>

text \<open>\<^verbatim>\<open>rb'^[A-Z][a-zA-Z\s]+:'\<close>\<close>

definition section_header_re :: re where
  "section_header_re =
     Seq [Bol, One (AnyOf [Rng CHR ''A'' CHR ''Z'']),
          Plus (AnyOf [Rng CHR ''a'' CHR ''z'', Rng CHR ''A'' CHR ''Z'', CSpace]), Lit '':'']"

text \<open>\<^verbatim>\<open>rb'Package \[([^\]]+)\]'\<close>\<close>

definition package_name_re :: re where
  "package_name_re = Seq [Lit ''Package ['', Grp 1 (Plus (NoneOf [Ch CHR '']''])), Lit '']'']"

text \<open>\<^verbatim>\<open>rb'([^:]+):\s*granted=(true|false)(?:,\s*flags=\[(.*?)\])?'\<close>\<close>

definition runtime_permission_re :: re where
  "runtime_permission_re =
     Seq [Grp 1 (Plus (NoneOf [Ch CHR '':''])), Lit '':'', Star (AnyOf [CSpace]), Lit ''granted='',
          Grp 2 (Alt (Lit ''true'') (Lit ''false'')),
          Opt (Seq [Lit '','', Star (AnyOf [CSpace]), Lit ''flags=['', Grp 3 (LStar Dot), Lit '']''])]"

text \<open>\<^verbatim>\<open>rb'([^:]+): granted=(true|false)'\<close>\<close>

definition install_permission_re :: re where
  "install_permission_re =
     Seq [Grp 1 (Plus (NoneOf [Ch CHR '':''])), Lit '': granted='',
          Grp 2 (Alt (Lit ''true'') (Lit ''false''))]"

text \<open>\<^verbatim>\<open>rb'([^:]+):\s*(prot=([^:]+))?'\<close>\<close>

definition declared_permission_re :: re where
  "declared_permission_re =
     Seq [Grp 1 (Plus (NoneOf [Ch CHR '':''])), Lit '':'', Star (AnyOf [CSpace]),
          Opt (Grp 2 (Seq [Lit ''prot='', Grp 3 (Plus (NoneOf [Ch CHR '':'']))]))]"

text \<open>\<^verbatim>\<open>rb'versionCode=(\d+)'\<close> and \<^verbatim>\<open>rb'versionName=([^\s]+)'\<close>\<close>

definition version_code_re :: re where
  "version_code_re = Seq [Lit ''versionCode='', Grp 1 (Plus (AnyOf [CDigit]))]"

definition version_name_re :: re where
  "version_name_re = Seq [Lit ''versionName='', Grp 1 (Plus (NoneOf [CSpace]))]"

text \<open>\<^verbatim>\<open>rb'([A-Z_]+)'\<close>\<close>

definition flag_re :: re where
  "flag_re = Grp 1 (Plus (AnyOf [Rng CHR ''A'' CHR ''Z'', Ch CHR ''_'']))"

text \<open>\<^verbatim>\<open>rb'User (\d+):'\<close>\<close>

definition user_re :: re where
  "user_re = Seq [Lit ''User '', Grp 1 (Plus (AnyOf [CDigit])), Lit '':'']"

text \<open>\<^verbatim>\<open>rb'firstInstallTime=(\d{4}-\d{2}-\d{2} \d{2}:\d{2}:\d{2})'\<close>\<close>

definition first_install_time_re :: re where
  "first_install_time_re =
     Seq [Lit ''firstInstallTime='',
          Grp 1 (Seq [Times 4 (AnyOf [CDigit]), Lit ''-'', Times 2 (AnyOf [CDigit]), Lit ''-'',
                      Times 2 (AnyOf [CDigit]), Lit '' '', Times 2 (AnyOf [CDigit]), Lit '':'',
                      Times 2 (AnyOf [CDigit]), Lit '':'', Times 2 (AnyOf [CDigit])])]"

text \<open>\<open>line.split(b'=')[1]\<close>\<close>

definition after_equals :: "bytes \<Rightarrow> error + bytes" where
  "after_equals line = second (split_sep ''='' line)"

text \<open>
  The variables of the loop. \<open>current_package\<close> refers to the package appended last: it is
  kept as that package's index in \<open>package_info.packages\<close>.
\<close>

record 'dt package_state =
  ps_info :: "'dt PackageInfo"
  ps_current_section :: "string option"
  ps_current_package :: "nat option"
  ps_current_package_subsection :: "string option"

definition package_init :: "'dt package_state" where
  "package_init =
     \<lparr>ps_info = new_PackageInfo, ps_current_section = None, ps_current_package = None,
      ps_current_package_subsection = None\<rparr>"

text \<open>An assignment to an attribute of \<open>current_package\<close>.\<close>

definition update_package ::
  "nat \<Rightarrow> ('dt Package \<Rightarrow> 'dt Package) \<Rightarrow> 'dt package_state \<Rightarrow> 'dt package_state" where
  "update_package idx f st =
     st\<lparr>ps_info := (ps_info st)\<lparr>pi_packages :=
           (pi_packages (ps_info st))[idx := f (pi_packages (ps_info st) ! idx)]\<rparr>\<rparr>"

text \<open>A line of the \<open>runtime permissions:\<close> subsection.\<close>

definition runtime_permission_line :: "bytes \<Rightarrow> nat \<Rightarrow> 'dt package_state \<Rightarrow> 'dt package_state" where
  "runtime_permission_line line idx st =
     (case re_search runtime_permission_re line of
        None \<Rightarrow> st
      | Some m \<Rightarrow>
          (let perm_name = strip (grp m 1);
               granted = (grp m 2 = ''true'');
               flags = (case group m 3 of
                          None \<Rightarrow> []
                        | Some g \<Rightarrow> if g = [] then [] else map strip (split_sep ''|'' g))
           in update_package idx
                (\<lambda>p. p\<lparr>pk_runtime_permissions :=
                        dict_set (pk_runtime_permissions p) perm_name
                          (PDict [(''granted'', PBool granted),
                                  (''flags'', PList (map PBytes flags))])\<rparr>) st))"

text \<open>A line of the \<open>install permissions:\<close> subsection.\<close>

definition install_permission_line :: "bytes \<Rightarrow> nat \<Rightarrow> 'dt package_state \<Rightarrow> 'dt package_state" where
  "install_permission_line line idx st =
     (case re_search install_permission_re line of
        None \<Rightarrow> st
      | Some m \<Rightarrow>
          update_package idx
            (\<lambda>p. p\<lparr>pk_install_permissions :=
                    dict_set (pk_install_permissions p) (strip (grp m 1))
                      (PDict [(''granted'', PBool (grp m 2 = ''true''))])\<rparr>) st)"

text \<open>
  A line of the \<open>declared permissions:\<close> subsection: \<open>match.group(3).strip()\<close> raises
  \<open>AttributeError\<close> when the optional \<open>prot=\<close> part took no part in the match.
\<close>

definition declared_permission_line ::
  "bytes \<Rightarrow> nat \<Rightarrow> 'dt package_state \<Rightarrow> error + 'dt package_state" where
  "declared_permission_line line idx st =
     (case re_search declared_permission_re line of
        None \<Rightarrow> Inr st
      | Some m \<Rightarrow>
          (case group m 3 of
             None \<Rightarrow> Inl AttributeError
           | Some g \<Rightarrow>
               Inr (update_package idx
                      (\<lambda>p. p\<lparr>pk_declared_permissions :=
                              dict_set (pk_declared_permissions p) (strip (grp m 1))
                                (PDict [(''prot'', PList (map (\<lambda>f. PBytes (strip f))
                                                             (split_sep ''|'' (strip g))))])\<rparr>) st)))"

text \<open>\<open>datetime.strptime(line.split(b'=')[1].decode('utf-8'), "%Y-%m-%d %H:%M:%S")\<close>\<close>

definition timestamp_after_equals :: "'dt pylib \<Rightarrow> bytes \<Rightarrow> error + 'dt" where
  "timestamp_after_equals lib line =
     (case after_equals line of
        Inl e \<Rightarrow> Inl e
      | Inr b \<Rightarrow>
          (case decode_utf8 b of
             Inl e \<Rightarrow> Inl e
           | Inr timestamp_str \<Rightarrow> lib_strptime lib timestamp_str ''%Y-%m-%d %H:%M:%S''))"

text \<open>A line of a package outside the permission subsections: the final \<open>else\<close>.\<close>

definition package_field_line ::
  "'dt pylib \<Rightarrow> bytes \<Rightarrow> nat \<Rightarrow> 'dt package_state \<Rightarrow> error + 'dt package_state" where
  "package_field_line lib line idx st =
     (if startswith line ''appId='' then
        (case after_equals line of
           Inl e \<Rightarrow> Inl e
         | Inr v \<Rightarrow> Inr (update_package idx (\<lambda>p. p\<lparr>pk_app_id := v\<rparr>) st))
      else if contains line ''versionCode='' then
        (case re_search version_code_re line of
           None \<Rightarrow> Inr st
         | Some m \<Rightarrow>
             (case py_int (grp m 1) of
                Inl e \<Rightarrow> Inl e
              | Inr n \<Rightarrow> Inr (update_package idx (\<lambda>p. p\<lparr>pk_version_code := n\<rparr>) st)))
      else if contains line ''versionName='' then
        (case re_search version_name_re line of
           None \<Rightarrow> Inr st
         | Some m \<Rightarrow> Inr (update_package idx (\<lambda>p. p\<lparr>pk_version_name := grp m 1\<rparr>) st))
      else if startswith line ''dataDir='' then
        (case after_equals line of
           Inl e \<Rightarrow> Inl e
         | Inr v \<Rightarrow> Inr (update_package idx (\<lambda>p. p\<lparr>pk_data_dir := v\<rparr>) st))
      else if startswith line ''flags='' then
        Inr (update_package idx
               (\<lambda>p. p\<lparr>pk_flags := map (\<lambda>m. grp m 1) (re_finditer flag_re line)\<rparr>) st)
      else if startswith line ''privateFlags='' then
        Inr (update_package idx
               (\<lambda>p. p\<lparr>pk_private_flags := map (\<lambda>m. grp m 1) (re_finditer flag_re line)\<rparr>) st)
      else if startswith line ''User '' then
        (case re_search user_re line of
           None \<Rightarrow> Inr st
         | Some user_match \<Rightarrow>
             (case py_int (grp user_match 1) of
                Inl e \<Rightarrow> Inl e
              | Inr user_id \<Rightarrow>
                  (let st = update_package idx
                              (\<lambda>p. p\<lparr>pk_users := dict_set (pk_users p) user_id [(''raw'', line)]\<rparr>) st
                   in case re_search first_install_time_re line of
                        None \<Rightarrow> Inr st
                      | Some install_time_match \<Rightarrow>
                          Inr (update_package idx
                                 (\<lambda>p. p\<lparr>pk_first_install_time := grp install_time_match 1\<rparr>) st))))
      else if startswith line ''originatingPackageName'' then
        (case after_equals line of
           Inl e \<Rightarrow> Inl e
         | Inr v \<Rightarrow> Inr (update_package idx (\<lambda>p. p\<lparr>pk_originating_package_name := v\<rparr>) st))
      else if startswith line ''initiatingPackageName'' then
        (case after_equals line of
           Inl e \<Rightarrow> Inl e
         | Inr v \<Rightarrow> Inr (update_package idx (\<lambda>p. p\<lparr>pk_initiating_package_name := v\<rparr>) st))
      else if startswith line ''installerPackageUid'' then
        (case after_equals line of
           Inl e \<Rightarrow> Inl e
         | Inr v \<Rightarrow>
             (case py_int v of
                Inl e \<Rightarrow> Inl e
              | Inr n \<Rightarrow> Inr (update_package idx (\<lambda>p. p\<lparr>pk_installer_package_uid := n\<rparr>) st)))
      else if startswith line ''timeStamp'' then
        (case timestamp_after_equals lib line of
           Inl e \<Rightarrow> Inl e
         | Inr dt \<Rightarrow> Inr (update_package idx (\<lambda>p. p\<lparr>pk_time_stamp := Some dt\<rparr>) st))
      else if startswith line ''lastUpdateTime'' then
        (case timestamp_after_equals lib line of
           Inl e \<Rightarrow> Inl e
         | Inr dt \<Rightarrow> Inr (update_package idx (\<lambda>p. p\<lparr>pk_last_update_time := Some dt\<rparr>) st))
      else Inr st)"

text \<open>A line of the \<open>Packages:\<close> section.\<close>

definition packages_line ::
  "'dt pylib \<Rightarrow> bytes \<Rightarrow> bytes \<Rightarrow> 'dt package_state \<Rightarrow> error + 'dt package_state" where
  "packages_line lib non_stripped_line line st =
     (if startswith line ''Package ['' then
        (let current_package =
               (case re_search package_name_re line of
                  None \<Rightarrow> new_Package
                | Some m \<Rightarrow> new_Package\<lparr>pk_name := grp m 1\<rparr>)
         in Inr (st\<lparr>ps_info := (ps_info st)\<lparr>pi_packages := pi_packages (ps_info st) @ [current_package]\<rparr>,
                    ps_current_package := Some (length (pi_packages (ps_info st))),
                    ps_current_package_subsection := None\<rparr>))
      else
        (case ps_current_package st of
           None \<Rightarrow> Inr st
         | Some idx \<Rightarrow>
             if startswith line ''runtime permissions:'' then
               Inr (st\<lparr>ps_current_package_subsection := Some ''runtime_permissions''\<rparr>)
             else if startswith line ''install permissions:'' then
               Inr (st\<lparr>ps_current_package_subsection := Some ''install_permissions''\<rparr>)
             else if startswith line ''declared permissions:'' then
               Inr (st\<lparr>ps_current_package_subsection := Some ''declared_permissions''\<rparr>)
             else
               (let st = (if \<not> startswith non_stripped_line ''      ''
                          then st\<lparr>ps_current_package_subsection := None\<rparr> else st)
                in if ps_current_package_subsection st = Some ''runtime_permissions'' then
                     Inr (runtime_permission_line line idx st)
                   else if ps_current_package_subsection st = Some ''install_permissions'' then
                     Inr (install_permission_line line idx st)
                   else if ps_current_package_subsection st = Some ''declared_permissions'' then
                     declared_permission_line line idx st
                   else package_field_line lib line idx st)))"

text \<open>A line of one of the sections: the branch \<open>elif current_section\<close>.\<close>

definition section_line ::
  "'dt pylib \<Rightarrow> string \<Rightarrow> bytes \<Rightarrow> bytes \<Rightarrow> 'dt package_state \<Rightarrow> error + 'dt package_state" where
  "section_line lib current_section non_stripped_line line st =
     (let info = ps_info st
      in if current_section = ''database'' then
           (if contains line '':''
            then (case split1 '':'' line of
                    [db_type, db_info] \<Rightarrow>
                      Inr (st\<lparr>ps_info := info\<lparr>pi_database_versions :=
                              dict_set (pi_database_versions info) (strip db_type) (strip db_info)\<rparr>\<rparr>)
                  | _ \<Rightarrow> Inl ValueError)
            else Inr st)
         else if current_section = ''known_packages'' then
           (if contains line '':''
            then (case split1 '':'' line of
                    [pkg_type, pkg_name] \<Rightarrow>
                      Inr (st\<lparr>ps_info := info\<lparr>pi_known_packages :=
                              dict_set (pi_known_packages info) (strip pkg_type) (strip pkg_name)\<rparr>\<rparr>)
                  | _ \<Rightarrow> Inl ValueError)
            else Inr st)
         else if current_section = ''verifiers'' then
           (if startswith line ''Required:''
            then Inr (st\<lparr>ps_info := info\<lparr>pi_verifiers :=
                        pi_verifiers info @ [strip (replace ''Required:'' '''' line)]\<rparr>\<rparr>)
            else Inr st)
         else if current_section = ''domain_verifier'' then
           (if startswith line ''Using:''
            then Inr (st\<lparr>ps_info := info\<lparr>pi_domain_verifier := strip (replace ''Using:'' '''' line)\<rparr>\<rparr>)
            else Inr st)
         else if current_section = ''libraries'' then
           (if contains line ''->''
            then (case split1 ''->'' line of
                    [lib_name, lib_path] \<Rightarrow>
                      Inr (st\<lparr>ps_info := info\<lparr>pi_libraries :=
                              dict_set (pi_libraries info) (strip lib_name) (strip lib_path)\<rparr>\<rparr>)
                  | _ \<Rightarrow> Inl ValueError)
            else Inr st)
         else if current_section = ''features'' then
           Inr (st\<lparr>ps_info := info\<lparr>pi_features := pi_features info @ [line]\<rparr>\<rparr>)
         else if current_section = ''packages'' then packages_line lib non_stripped_line line st
         else Inr st)"

text \<open>One line of the package content: the body of the loop.\<close>

definition package_step :: "'dt pylib \<Rightarrow> bytes \<Rightarrow> 'dt package_state \<Rightarrow> error + 'dt package_state" where
  "package_step lib non_stripped_line st =
     (let line = strip non_stripped_line
      in if line = [] then Inr st
         else if startswith line ''Service host process PID:'' then
           (case int_after_colon line of
              Inl e \<Rightarrow> Inl e
            | Inr pid \<Rightarrow> Inr (st\<lparr>ps_info := (ps_info st)\<lparr>pi_service_pid := pid\<rparr>\<rparr>))
         else if startswith line ''Threads in use:'' then
           (case after_colon line of
              Inl e \<Rightarrow> Inl e
            | Inr s \<Rightarrow> Inr (st\<lparr>ps_info := (ps_info st)\<lparr>pi_threads_in_use := s\<rparr>\<rparr>))
         else if startswith line ''Client PIDs:'' then
           (case pids_after_colon line of
              Inl e \<Rightarrow> Inl e
            | Inr pids \<Rightarrow> Inr (st\<lparr>ps_info := (ps_info st)\<lparr>pi_client_pids := pids\<rparr>\<rparr>))
         else if startswith line ''Database versions:'' then Inr (st\<lparr>ps_current_section := Some ''database''\<rparr>)
         else if startswith line ''Known Packages:'' then Inr (st\<lparr>ps_current_section := Some ''known_packages''\<rparr>)
         else if startswith line ''Verifiers:'' then Inr (st\<lparr>ps_current_section := Some ''verifiers''\<rparr>)
         else if startswith line ''Domain Verifier:'' then Inr (st\<lparr>ps_current_section := Some ''domain_verifier''\<rparr>)
         else if startswith line ''Libraries:'' then Inr (st\<lparr>ps_current_section := Some ''libraries''\<rparr>)
         else if startswith line ''Features:'' then Inr (st\<lparr>ps_current_section := Some ''features''\<rparr>)
         else if startswith line ''Packages:'' then Inr (st\<lparr>ps_current_section := Some ''packages''\<rparr>)
         else if re_match section_header_re line \<noteq> None then Inr (st\<lparr>ps_current_section := None\<rparr>)
         else (case ps_current_section st of
                 None \<Rightarrow> Inr st
               | Some current_section \<Rightarrow> section_line lib current_section non_stripped_line line st))"

fun package_loop :: "'dt pylib \<Rightarrow> bytes list \<Rightarrow> 'dt package_state \<Rightarrow> error + 'dt package_state" where
  "package_loop lib [] st = Inr st"
| "package_loop lib (line # lines) st =
     (case package_step lib line st of
        Inl e \<Rightarrow> Inl e
      | Inr st' \<Rightarrow> package_loop lib lines st')"

text \<open>
  The first loop: the lines between \<open>DUMP OF SERVICE package:\<close> and the next service or
  section header.
\<close>

fun package_content_loop :: "bytes list \<Rightarrow> bool \<Rightarrow> bytes list \<Rightarrow> bytes list" where
  "package_content_loop [] in_package_section package_content_lines = package_content_lines"
| "package_content_loop (line # lines) in_package_section package_content_lines =
     (if startswith line ''DUMP OF SERVICE package:''
      then package_content_loop lines True package_content_lines
      else if in_package_section
      then (if startswith line ''DUMP OF SERVICE'' \<or> startswith line ''------''
            then package_content_lines
            else package_content_loop lines in_package_section (package_content_lines @ [line]))
      else package_content_loop lines in_package_section package_content_lines)"

definition parse_package_info ::
  "'dt pylib \<Rightarrow> RawData \<Rightarrow> log_record list \<times> (error + 'dt PackageInfo option)" where
  "parse_package_info lib dumpstate_content =
     ([Info (''Parsing '' @ quoted ''DUMP OF SERVICE package'' @ '' section...'')],
      let package_content_lines = package_content_loop (rd_lines dumpstate_content) False []
      in if package_content_lines = [] then Inr None
         else (case package_loop lib (split_sep ''\<newline>'' (join ''\<newline>'' package_content_lines))
                      package_init of
                 Inl e \<Rightarrow> Inl e
               | Inr st \<Rightarrow> Inr (Some (ps_info st))))"

subsection \<open>Lines the parser cannot read\<close>

text \<open>
  C2. The claim: \<open>parse_package_info\<close> never raises, a line of an unexpected shape is
  skipped. The conversions of three branches are unguarded, and each of these reports makes
  the function raise: \<open>int(b'abc')\<close> for \<open>installerPackageUid=abc\<close> and \<open>int(b'x')\<close> for
  \<open>Client PIDs: x\<close> are a \<open>ValueError\<close>, and a declared permission without \<open>prot=\<close> is an
  \<open>AttributeError\<close> (\<open>match.group(3)\<close> is \<open>None\<close>). The sibling branch for
  \<open>versionCode=\<close> reads the number through a pattern and skips the line \<open>versionCode=abc\<close>,
  as the claim says every branch should.
\<close>

theorem parse_package_info_raises:
  "snd (parse_package_info sample_lib (mk_RawData
     ''DUMP OF SERVICE package:\<newline>Packages:\<newline>  Package [a]\<newline>    installerPackageUid=abc''))
     = Inl ValueError \<and>
   snd (parse_package_info sample_lib (mk_RawData
     ''DUMP OF SERVICE package:\<newline>Client PIDs: x''))
     = Inl ValueError \<and>
   snd (parse_package_info sample_lib (mk_RawData
     ''DUMP OF SERVICE package:\<newline>Packages:\<newline>  Package [a]\<newline>    declared permissions:\<newline>      com.example.P: normal''))
     = Inl AttributeError \<and>
   snd (parse_package_info sample_lib (mk_RawData
     ''DUMP OF SERVICE package:\<newline>Packages:\<newline>  Package [a]\<newline>    versionCode=abc''))
     = Inr (Some (new_PackageInfo\<lparr>pi_packages := [new_Package\<lparr>pk_name := ''a''\<rparr>]\<rparr>))"
  by code_simp

text \<open>
  With any library whose \<open>strptime\<close> refuses the text \<open>garbage\<close>, the line
  \<open>timeStamp=garbage\<close> raises as well.
\<close>

lemma timestamp_garbage_raises:
  assumes "lib_strptime lib ''garbage'' ''%Y-%m-%d %H:%M:%S'' = Inl ValueError"
  shows "timestamp_after_equals lib ''timeStamp=garbage'' = Inl ValueError"
proof -
  have "after_equals ''timeStamp=garbage'' = Inr ''garbage''" by code_simp
  moreover have "decode_utf8 ''garbage'' = Inr ''garbage''" by code_simp
  ultimately show ?thesis using assms by (simp add: timestamp_after_equals_def)
qed

subsection \<open>A runtime permission line\<close>
















subsection \<open>The lookahead over native frames\<close>






text \<open>The frame the loop appends for a line is the one \<open>StackFrame.parse\<close> builds.\<close>

lemma native_frame_eq:
  "StackFrame_parse new_StackFrame (strip (replace ''native:'' '''' line)) ''native'' =
     Inr (native_frame line)"
  by (simp add: StackFrame_parse_def native_frame_def)





section \<open>The record that is open when a section ends\<close>

subsection \<open>The account service\<close>








subsection \<open>The ANR traces\<close>












subsection \<open>The last record of a section\<close>








end
